theory Spec2Isabelle
  imports Main "HOL-Library.Word"
begin

section \<open>Strings and the two regular expressions of the push handler\<close>

text \<open>
  A JavaScript string is a sequence of UTF-16 code units. String constants of the
  source are written with \<open>js\<close>, which maps an ASCII literal to its code units.
\<close>

type_synonym code_unit = "16 word"
type_synonym jsstring = "code_unit list"

definition js :: "string \<Rightarrow> jsstring" where
  "js s = map (\<lambda>c. word_of_nat (of_char c)) s"

text \<open>
  Without the \<open>s\<close> flag the pattern \<open>.\<close> matches every character except the four
  ECMAScript line terminators: LF (U+000A), CR (U+000D), LINE SEPARATOR (U+2028) and
  PARAGRAPH SEPARATOR (U+2029). None of them is a surrogate, so matching code unit by
  code unit stops at the same place as matching code point by code point under the
  \<open>u\<close> flag.
\<close>

definition isLineTerminator :: "code_unit \<Rightarrow> bool" where
  "isLineTerminator c \<longleftrightarrow> c = 0x000A \<or> c = 0x000D \<or> c = 0x2028 \<or> c = 0x2029"

text \<open>The pattern \<open>.\<close> (no \<open>s\<close> flag) and the class \<open>[\s\S]\<close>, which excludes nothing.\<close>

definition dot :: "code_unit \<Rightarrow> bool" where
  "dot c \<longleftrightarrow> \<not> isLineTerminator c"

definition any_char :: "code_unit \<Rightarrow> bool" where
  "any_char c \<longleftrightarrow> True"

text \<open>
  The matcher is written in continuation style, as a backtracking engine runs a
  pattern: each piece consumes input and hands the rest to the continuation \<open>k\<close>, which
  stands for the remainder of the pattern; \<open>None\<close> is a failed attempt.

  \<open>lit\<close> is a run of literal characters. \<open>star\<close> is a greedy \<open>X*\<close> over a
  one-character pattern \<open>X\<close>: it first tries to take one more character, and falls back
  to stopping here only when the longer attempt fails; it returns the text the star
  consumed (the capture, when the star is the whole group) with the continuation's
  result. \<open>at_end\<close> is \<open>$\<close> without the \<open>m\<close> flag: the end of the input only.
  Both expressions start with \<open>^\<close> and have no \<open>m\<close> flag, so the only start position
  an attempt can succeed from is the start of the string.
\<close>

fun lit :: "jsstring \<Rightarrow> (jsstring \<Rightarrow> 'a option) \<Rightarrow> jsstring \<Rightarrow> 'a option" where
  "lit [] k s = k s"
| "lit (c # cs) k [] = None"
| "lit (c # cs) k (d # ds) = (if c = d then lit cs k ds else None)"

fun star :: "(code_unit \<Rightarrow> bool) \<Rightarrow> (jsstring \<Rightarrow> 'a option) \<Rightarrow> jsstring
    \<Rightarrow> (jsstring \<times> 'a) option" where
  "star p k [] = map_option (Pair []) (k [])"
| "star p k (c # cs) =
     (if p c then
        (case star p k cs of
           Some (m, r) \<Rightarrow> Some (c # m, r)
         | None \<Rightarrow> map_option (Pair []) (k (c # cs)))
      else map_option (Pair []) (k (c # cs)))"

definition at_end :: "jsstring \<Rightarrow> unit option" where
  "at_end s = (if s = [] then Some () else None)"

text \<open>
  \<open>COMMIT_HEADLINE_MATCHER = /^(?<commitHeadline>.*)[\s\S]*$/u\<close> and
  \<open>SHORT_REFERENCE_MATCHER = /^refs\/heads\/(?<name>.*)$/u\<close>. Each function is
  \<open>String.prototype.match\<close> with that expression, reduced to the named group the
  source reads: \<open>Some\<close> of the group on a match, \<open>None\<close> when \<open>match\<close> returns null.
\<close>

definition COMMIT_HEADLINE_MATCHER :: "jsstring \<Rightarrow> jsstring option" where
  "COMMIT_HEADLINE_MATCHER s = map_option fst (star dot (star any_char at_end) s)"

definition SHORT_REFERENCE_MATCHER :: "jsstring \<Rightarrow> jsstring option" where
  "SHORT_REFERENCE_MATCHER s = map_option fst (lit (js ''refs/heads/'') (star dot at_end) s)"


section \<open>Data model\<close>

datatype mergeable_state = CONFLICTING | MERGEABLE | UNKNOWN

datatype pull_request_state = CLOSED | MERGED | OPEN

datatype review_state = APPROVED | CHANGES_REQUESTED | COMMENTED | DISMISSED | PENDING

record review_node =
  state :: review_state

record review_edge =
  node :: review_node

text \<open>
  \<open>interface PullRequestInformation\<close>. An element of \<open>reviewEdges\<close> may itself be
  \<open>undefined\<close>, which is \<open>None\<close>.
\<close>

record pull_request_information =
  mergeableState :: mergeable_state
  merged :: bool
  pullRequestId :: jsstring
  pullRequestState :: pull_request_state
  reviewEdges :: "review_edge option list"

text \<open>The argument of \<open>tryMerge\<close>: \<open>PullRequestInformation & { commitMessageHeadline: string }\<close>.\<close>

record merge_information = pull_request_information +
  commitMessageHeadline :: jsstring

text \<open>
  A value of the untyped response: \<open>null\<close>, \<open>undefined\<close> (also a property that is
  absent), or a value. The two empty values are kept apart because the source tests
  \<open>response === null\<close> strictly.
\<close>

datatype 'a nullable = Null | Undefined | Defined 'a

text \<open>
  The response of the read query, along the path the source walks:
  \<open>response.repository.pullRequests.nodes[0]\<close>, then the node's fields \<open>id\<close>,
  \<open>mergeable\<close>, \<open>merged\<close>, \<open>reviews.edges\<close> and \<open>state\<close>. The response is untyped
  in the source, so every object the source reads a property of or destructures may be
  \<open>null\<close> or \<open>undefined\<close>: the response, \<open>repository\<close>, \<open>pullRequests\<close>,
  \<open>nodes\<close>, the first node and its \<open>reviews\<close>. The five values read off the node
  (\<open>id\<close>, \<open>mergeable\<close>, \<open>merged\<close>, \<open>state\<close> and \<open>reviews.edges\<close>) are not
  inspected by \<open>getPullRequestInformation\<close>; they become the fields of the returned
  \<open>PullRequestInformation\<close> and have the types its declaration gives them.
\<close>

record reviews_obj =
  edges :: "review_edge option list"

record pull_request_node =
  pr_id :: jsstring
  pr_mergeable :: mergeable_state
  pr_merged :: bool
  pr_reviews :: "reviews_obj nullable"
  pr_state :: pull_request_state

record pull_requests_obj =
  nodes :: "pull_request_node nullable list nullable"

record repository_obj =
  pullRequests :: "pull_requests_obj nullable"

record response_obj =
  repository :: "repository_obj nullable"

type_synonym response = "response_obj nullable"

text \<open>
  The ambient \<open>context\<close> of \<open>@actions/github\<close>, passed explicitly. \<open>context.payload\<close>
  is an open dictionary, so each top-level key may be absent; \<open>repo_owner\<close> and
  \<open>repo_repo\<close> are \<open>context.repo.owner\<close> and \<open>context.repo.repo\<close>.
\<close>

record commit =
  message :: jsstring

record pusher_obj =
  name :: jsstring

record payload_obj =
  ref :: "jsstring option"
  pusher :: "pusher_obj option"
  commits :: "commit list option"

record action_context =
  payload :: payload_obj
  repo_owner :: jsstring
  repo_repo :: jsstring

text \<open>
  What a throw carries: the TypeError of reading or destructuring \<open>null\<close> or
  \<open>undefined\<close>, or whatever a rejected \<open>octokit.graphql\<close> promise carries.
\<close>

datatype error = TypeError | RequestError jsstring

section \<open>Effects: the graph API and the logger\<close>

text \<open>
  The variables of the two kinds of \<open>octokit.graphql\<close> call. \<open>var_commitHeadline\<close>
  and \<open>var_pullRequestId\<close> are the keys \<open>commitHeadline\<close> and \<open>pullRequestId\<close> of the
  mutation's variables.
\<close>

record query_variables =
  referenceName :: jsstring
  repositoryName :: jsstring
  repositoryOwner :: jsstring

record mutation_variables =
  var_commitHeadline :: jsstring
  var_pullRequestId :: jsstring

text \<open>
  A call of \<open>octokit.graphql\<close>: the read query \<open>findPullRequestInfoAndReviews\<close> with its
  variables, or a mutation document (of type \<open>'m\<close>, whatever \<open>mutationSelector\<close>
  returns) with its variables.
\<close>

datatype 'm request =
    Query query_variables
  | Mutation 'm mutation_variables

text \<open>
  The messages of the source, by template:
  \<^item> \<open>NotMergeable s\<close>: "Pull request is not in a mergeable state: <mergeableState>."
  \<^item> \<open>AlreadyMerged\<close>: "Pull request is already merged."
  \<^item> \<open>NotOpen s\<close>: "Pull request is not open: <pullRequestState>."
  \<^item> \<open>NotCreatedBy l\<close>: "Pull request not created by <gitHubLogin>, skipping."
  \<^item> \<open>UnableToFetch\<close>: "Unable to fetch pull request information."
  \<^item> \<open>FoundInformation i\<close>: "Found pull request information: <JSON.stringify(i)>."
\<close>

datatype log_message =
    NotMergeable mergeable_state
  | AlreadyMerged
  | NotOpen pull_request_state
  | NotCreatedBy jsstring
  | UnableToFetch
  | FoundInformation pull_request_information

text \<open>
  Everything the handler does to the outside, in the order it happens: a trace of log
  lines (\<open>logInfo\<close>, \<open>logWarning\<close>, \<open>logError\<close>) and graph API calls. Every effectful
  function takes the trace so far and returns its result with the extended trace.
\<close>

datatype 'm event =
    LogInfo log_message
  | LogWarning log_message
  | LogError error
  | GraphqlCall "'m request"

type_synonym 'm trace = "'m event list"

text \<open>
  The client: what \<open>await octokit.graphql(...)\<close> gives for a request, \<open>Inl\<close> a
  rejection (the \<open>await\<close> throws), \<open>Inr\<close> the resolved response.
\<close>

type_synonym 'm octokit = "'m request \<Rightarrow> error + response"

definition graphql :: "'m octokit \<Rightarrow> 'm request \<Rightarrow> 'm trace \<Rightarrow> (error + response) \<times> 'm trace" where
  "graphql octokit req tr = (octokit req, tr @ [GraphqlCall req])"

text \<open>Reading the trace: the mutation calls, the read queries and the log lines by level.\<close>

fun mutation_calls :: "'m trace \<Rightarrow> ('m \<times> mutation_variables) list" where
  "mutation_calls [] = []"
| "mutation_calls (GraphqlCall (Mutation d v) # es) = (d, v) # mutation_calls es"
| "mutation_calls (e # es) = mutation_calls es"

fun fetch_calls :: "'m trace \<Rightarrow> query_variables list" where
  "fetch_calls [] = []"
| "fetch_calls (GraphqlCall (Query q) # es) = q # fetch_calls es"
| "fetch_calls (e # es) = fetch_calls es"

fun info_logs :: "'m trace \<Rightarrow> log_message list" where
  "info_logs [] = []"
| "info_logs (LogInfo m # es) = m # info_logs es"
| "info_logs (e # es) = info_logs es"

fun warning_logs :: "'m trace \<Rightarrow> log_message list" where
  "warning_logs [] = []"
| "warning_logs (LogWarning m # es) = m # warning_logs es"
| "warning_logs (e # es) = warning_logs es"

fun error_logs :: "'m trace \<Rightarrow> error list" where
  "error_logs [] = []"
| "error_logs (LogError x # es) = x # error_logs es"
| "error_logs (e # es) = error_logs es"


section \<open>The push handler\<close>

text \<open>
  \<open>getCommitMessageHeadline\<close> reads \<open>context.payload.commits[0].message\<close> and
  destructures the match. An absent \<open>commits\<close> and an empty one (\<open>commits[0]\<close> is
  \<open>undefined\<close>) throw at the property read; a null match would throw at the
  destructuring.
\<close>

definition getCommitMessageHeadline :: "payload_obj \<Rightarrow> error + jsstring" where
  "getCommitMessageHeadline p =
     (case commits p of
        None \<Rightarrow> Inl TypeError
      | Some [] \<Rightarrow> Inl TypeError
      | Some (c # _) \<Rightarrow>
          (case COMMIT_HEADLINE_MATCHER (message c) of
             None \<Rightarrow> Inl TypeError
           | Some commitHeadline \<Rightarrow> Inr commitHeadline))"

text \<open>\<open>getReferenceName\<close> reads \<open>context.payload.ref\<close> and destructures the match.\<close>

definition getReferenceName :: "payload_obj \<Rightarrow> error + jsstring" where
  "getReferenceName p =
     (case ref p of
        None \<Rightarrow> Inl TypeError
      | Some r \<Rightarrow>
          (case SHORT_REFERENCE_MATCHER r of
             None \<Rightarrow> Inl TypeError
           | Some shortName \<Rightarrow> Inr shortName))"

text \<open>
  \<open>getPullRequestInformation\<close>, after the awaited query has resolved (lines 63 to 92).
  The test \<open>response === null\<close> answers "not found" for \<open>null\<close> only; on an
  \<open>undefined\<close> response the second operand reads \<open>response.repository\<close> and throws.
  Then \<open>.pullRequests\<close>, \<open>.nodes\<close> and \<open>.length\<close> are read in turn, each a TypeError
  on \<open>null\<close> or \<open>undefined\<close>. The destructuring takes the first element of \<open>nodes\<close>
  and its properties, and destructures its \<open>reviews\<close>: a TypeError when the first node
  or its \<open>reviews\<close> is \<open>null\<close> or \<open>undefined\<close>. \<open>None\<close> is the \<open>undefined\<close> the
  function returns when nothing was found.
\<close>

definition informationOf :: "response \<Rightarrow> error + pull_request_information option" where
  "informationOf response =
     (case response of
        Null \<Rightarrow> Inr None
      | Undefined \<Rightarrow> Inl TypeError
      | Defined body \<Rightarrow>
          (case repository body of
             Null \<Rightarrow> Inl TypeError
           | Undefined \<Rightarrow> Inl TypeError
           | Defined r \<Rightarrow>
               (case pullRequests r of
                  Null \<Rightarrow> Inl TypeError
                | Undefined \<Rightarrow> Inl TypeError
                | Defined prs \<Rightarrow>
                    (case nodes prs of
                       Null \<Rightarrow> Inl TypeError
                     | Undefined \<Rightarrow> Inl TypeError
                     | Defined [] \<Rightarrow> Inr None
                     | Defined (Null # _) \<Rightarrow> Inl TypeError
                     | Defined (Undefined # _) \<Rightarrow> Inl TypeError
                     | Defined (Defined n # _) \<Rightarrow>
                         (case pr_reviews n of
                            Null \<Rightarrow> Inl TypeError
                          | Undefined \<Rightarrow> Inl TypeError
                          | Defined rv \<Rightarrow>
                              Inr (Some \<lparr>mergeableState = pr_mergeable n,
                                         merged = pr_merged n,
                                         pullRequestId = pr_id n,
                                         pullRequestState = pr_state n,
                                         reviewEdges = edges rv\<rparr>))))))"

definition getPullRequestInformation ::
    "'m octokit \<Rightarrow> query_variables \<Rightarrow> 'm trace
      \<Rightarrow> (error + pull_request_information option) \<times> 'm trace" where
  "getPullRequestInformation octokit query tr =
     (case graphql octokit (Query query) tr of
        (Inl e, tr') \<Rightarrow> (Inl e, tr')
      | (Inr response, tr') \<Rightarrow> (informationOf response, tr'))"

text \<open>
  \<open>xs[0]\<close> of a JavaScript array: \<open>undefined\<close> on the empty array, the first element
  (which may itself be \<open>undefined\<close>) otherwise.
\<close>

definition element0 :: "'a option list \<Rightarrow> 'a option" where
  "element0 xs = (case xs of [] \<Rightarrow> None | x # _ \<Rightarrow> x)"

text \<open>
  \<open>tryMerge\<close>. \<open>mutationSelector\<close> is imported from \<open>util\<close>, which is not among the
  sources; it is the parameter \<open>selector\<close>. The response of the mutation is dropped.
\<close>

definition tryMerge ::
    "(review_edge option \<Rightarrow> 'm) \<Rightarrow> 'm octokit \<Rightarrow> merge_information \<Rightarrow> 'm trace
      \<Rightarrow> (error + unit) \<times> 'm trace" where
  "tryMerge selector octokit i tr =
     (if mergeableState i \<noteq> MERGEABLE then
        (Inr (), tr @ [LogInfo (NotMergeable (mergeableState i))])
      else if merged i then
        (Inr (), tr @ [LogInfo AlreadyMerged])
      else if pullRequestState i \<noteq> OPEN then
        (Inr (), tr @ [LogInfo (NotOpen (pullRequestState i))])
      else
        (case graphql octokit
                (Mutation (selector (element0 (reviewEdges i)))
                   \<lparr>var_commitHeadline = commitMessageHeadline i,
                    var_pullRequestId = pullRequestId i\<rparr>) tr of
           (Inl e, tr') \<Rightarrow> (Inl e, tr')
         | (Inr _, tr') \<Rightarrow> (Inr (), tr')))"

text \<open>
  The object \<open>{...pullRequestInformation, commitMessageHeadline: h}\<close> that
  \<open>pushHandle\<close> passes to \<open>tryMerge\<close>.
\<close>

definition withHeadline :: "pull_request_information \<Rightarrow> jsstring \<Rightarrow> merge_information" where
  "withHeadline i h =
     \<lparr>mergeableState = mergeableState i,
      merged = merged i,
      pullRequestId = pullRequestId i,
      pullRequestState = pullRequestState i,
      reviewEdges = reviewEdges i,
      commitMessageHeadline = h\<rparr>"

text \<open>
  The body of the \<open>try\<close> block of \<open>pushHandle\<close> (lines 131 to 150), in evaluation
  order: \<open>getReferenceName()\<close> before the query, the "found" log line before
  \<open>getCommitMessageHeadline()\<close>, that before \<open>tryMerge\<close>. \<open>Inl\<close> is a throw that
  leaves the block.
\<close>

definition pushHandle_try ::
    "(review_edge option \<Rightarrow> 'm) \<Rightarrow> 'm octokit \<Rightarrow> action_context \<Rightarrow> 'm trace
      \<Rightarrow> (error + unit) \<times> 'm trace" where
  "pushHandle_try selector octokit ctx tr =
     (case getReferenceName (payload ctx) of
        Inl e \<Rightarrow> (Inl e, tr)
      | Inr rn \<Rightarrow>
          (case getPullRequestInformation octokit
                  \<lparr>referenceName = rn,
                   repositoryName = repo_repo ctx,
                   repositoryOwner = repo_owner ctx\<rparr> tr of
             (Inl e, tr1) \<Rightarrow> (Inl e, tr1)
           | (Inr None, tr1) \<Rightarrow> (Inr (), tr1 @ [LogWarning UnableToFetch])
           | (Inr (Some pullRequestInformation), tr1) \<Rightarrow>
               (case getCommitMessageHeadline (payload ctx) of
                  Inl e \<Rightarrow> (Inl e, tr1 @ [LogInfo (FoundInformation pullRequestInformation)])
                | Inr h \<Rightarrow>
                    tryMerge selector octokit (withHeadline pullRequestInformation h)
                      (tr1 @ [LogInfo (FoundInformation pullRequestInformation)]))))"

text \<open>
  \<open>pushHandle\<close>. The login test reads \<open>context.payload.pusher.name\<close> before the
  \<open>try\<close> block, so a payload without \<open>pusher\<close> makes it throw to the caller (\<open>Inl\<close>);
  what the \<open>try\<close> block throws is caught and passed to \<open>logError\<close>.
\<close>

definition pushHandle ::
    "(review_edge option \<Rightarrow> 'm) \<Rightarrow> 'm octokit \<Rightarrow> jsstring \<Rightarrow> action_context \<Rightarrow> 'm trace
      \<Rightarrow> (error + unit) \<times> 'm trace" where
  "pushHandle selector octokit gitHubLogin ctx tr =
     (case pusher (payload ctx) of
        None \<Rightarrow> (Inl TypeError, tr)
      | Some p \<Rightarrow>
          if name p \<noteq> gitHubLogin then
            (Inr (), tr @ [LogInfo (NotCreatedBy gitHubLogin)])
          else
            (case pushHandle_try selector octokit ctx tr of
               (Inl e, tr') \<Rightarrow> (Inr (), tr' @ [LogError e])
             | (Inr _, tr') \<Rightarrow> (Inr (), tr')))"

section \<open>What the specification says of parts that are not in the sources\<close>

text \<open>The three merge mutations of the specification, named by strategy.\<close>

datatype merge_strategy = MergeCommit | Squash | Rebase

text \<open>
  Modelled from the spec: \<open>mutationSelector\<close> is defined in \<open>util\<close>, which is not among
  the sources. The specification gives it as: the merge-commit strategy when the review's
  state is \<open>APPROVED\<close>, the squash strategy for any other state and for no review; the
  rebase strategy exists and is never selected. \<open>tryMerge\<close> and \<open>pushHandle\<close> do not
  depend on it: they take the selector as a parameter, and this one is passed at the
  concrete inputs.
\<close>

definition mutationSelector :: "review_edge option \<Rightarrow> merge_strategy" where
  "mutationSelector e =
     (case e of
        None \<Rightarrow> Squash
      | Some edge \<Rightarrow> if state (node edge) = APPROVED then MergeCommit else Squash)"

text \<open>
  The specification's \<open>reviewEdges[last]\<close>, the element the specification says the
  selector is applied to: the last element, \<open>undefined\<close> on the empty array.
\<close>

definition spec_last_edge :: "'a option list \<Rightarrow> 'a option" where
  "spec_last_edge xs = (case rev xs of [] \<Rightarrow> None | x # _ \<Rightarrow> x)"


section \<open>Concrete inputs\<close>

text \<open>
  A client that answers every read query with \<open>q\<close> and every mutation with \<open>m\<close>, and
  the payloads, responses and pull requests the examples below are evaluated on.
\<close>

definition octokit_answering :: "error + response \<Rightarrow> error + response \<Rightarrow> 'm octokit" where
  "octokit_answering q m req = (case req of Query _ \<Rightarrow> q | Mutation _ _ \<Rightarrow> m)"

definition edge_in_state :: "review_state \<Rightarrow> review_edge option" where
  "edge_in_state s = Some \<lparr>node = \<lparr>state = s\<rparr>\<rparr>"

definition example_information ::
    "mergeable_state \<Rightarrow> bool \<Rightarrow> pull_request_state \<Rightarrow> review_edge option list
      \<Rightarrow> merge_information" where
  "example_information ms m ps es =
     \<lparr>mergeableState = ms, merged = m, pullRequestId = js ''PR_1'',
      pullRequestState = ps, reviewEdges = es, commitMessageHeadline = js ''Bump x''\<rparr>"

definition example_node :: "reviews_obj nullable \<Rightarrow> pull_request_node" where
  "example_node rv =
     \<lparr>pr_id = js ''PR_1'', pr_mergeable = MERGEABLE, pr_merged = False,
      pr_reviews = rv, pr_state = OPEN\<rparr>"

definition reviewed :: "review_edge option list \<Rightarrow> pull_request_node nullable" where
  "reviewed es = Defined (example_node (Defined \<lparr>edges = es\<rparr>))"

definition response_with_nodes ::
    "pull_request_node nullable list nullable \<Rightarrow> response" where
  "response_with_nodes ns =
     Defined \<lparr>repository = Defined \<lparr>pullRequests = Defined \<lparr>nodes = ns\<rparr>\<rparr>\<rparr>"

definition payload_without_pusher :: payload_obj where
  "payload_without_pusher =
     \<lparr>ref = Some (js ''refs/heads/x''), pusher = None,
      commits = Some [\<lparr>message = js ''Bump x''\<rparr>]\<rparr>"

definition context_without_pusher :: action_context where
  "context_without_pusher =
     \<lparr>payload = payload_without_pusher, repo_owner = js ''o'', repo_repo = js ''r''\<rparr>"

definition example_payload :: "jsstring \<Rightarrow> jsstring \<Rightarrow> commit list option \<Rightarrow> payload_obj" where
  "example_payload r who cs = \<lparr>ref = Some r, pusher = Some \<lparr>name = who\<rparr>, commits = cs\<rparr>"

definition example_context :: "jsstring \<Rightarrow> jsstring \<Rightarrow> commit list option \<Rightarrow> action_context" where
  "example_context r who cs =
     \<lparr>payload = example_payload r who cs, repo_owner = js ''o'', repo_repo = js ''r''\<rparr>"

definition example_query :: "jsstring \<Rightarrow> query_variables" where
  "example_query rn = \<lparr>referenceName = rn, repositoryName = js ''r'', repositoryOwner = js ''o''\<rparr>"


section \<open>What the two regular expressions match\<close>

text \<open>
  \<open>COMMIT_HEADLINE_MATCHER\<close> matches every string: the remainder \<open>[\s\S]*$\<close> accepts
  whatever the greedy group leaves, so the group is the longest run of characters
  before the first line terminator.
\<close>

lemma star_any_char_at_end: "star any_char at_end s = Some (s, ())"
  by (induction s) (simp_all add: any_char_def at_end_def)

lemma star_dot_succeeding:
  assumes "\<And>r. k r \<noteq> None"
  shows "star dot k s = map_option (Pair (takeWhile dot s)) (k (dropWhile dot s))"
proof (induction s)
  case Nil
  then show ?case by simp
next
  case (Cons c cs)
  obtain y where "k (dropWhile dot cs) = Some y"
    using assms [of "dropWhile dot cs"] by auto
  with Cons show ?case by simp
qed

lemma COMMIT_HEADLINE_MATCHER_takeWhile:
  "COMMIT_HEADLINE_MATCHER s = Some (takeWhile (\<lambda>c. \<not> isLineTerminator c) s)"
proof -
  have "dot = (\<lambda>c. \<not> isLineTerminator c)"
    by (rule ext) (simp add: dot_def)
  then show ?thesis
    by (simp add: COMMIT_HEADLINE_MATCHER_def star_dot_succeeding star_any_char_at_end)
qed

text \<open>
  \<open>SHORT_REFERENCE_MATCHER\<close> matches exactly the strings that are \<open>refs/heads/\<close>
  followed by a name without line terminator: the group cannot cross one, and \<open>$\<close>
  wants the end of the string right after the group.
\<close>

lemma star_dot_at_end:
  "star dot at_end s = (if \<forall>c\<in>set s. \<not> isLineTerminator c then Some (s, ()) else None)"
  by (induction s) (auto simp: at_end_def dot_def)

lemma lit_append: "lit p k (p @ r) = k r"
  by (induction p) auto

lemma lit_Some: "lit p k s = Some y \<Longrightarrow> \<exists>r. s = p @ r \<and> k r = Some y"
  by (induction p k s rule: lit.induct) (auto split: if_splits)

lemma SHORT_REFERENCE_MATCHER_Some:
  "SHORT_REFERENCE_MATCHER s = Some n \<longleftrightarrow>
     s = js ''refs/heads/'' @ n \<and> (\<forall>c\<in>set n. \<not> isLineTerminator c)"
proof
  assume "SHORT_REFERENCE_MATCHER s = Some n"
  then obtain y
    where y: "lit (js ''refs/heads/'') (star dot at_end) s = Some y" and n: "fst y = n"
    unfolding SHORT_REFERENCE_MATCHER_def
    by (cases "lit (js ''refs/heads/'') (star dot at_end) s") simp_all
  from lit_Some [OF y] obtain r
    where s: "s = js ''refs/heads/'' @ r" and r: "star dot at_end r = Some y"
    by (elim exE conjE)
  from r have "(\<forall>c\<in>set r. \<not> isLineTerminator c) \<and> y = (r, ())"
    by (simp add: star_dot_at_end split: if_splits)
  with n s show "s = js ''refs/heads/'' @ n \<and> (\<forall>c\<in>set n. \<not> isLineTerminator c)"
    by simp
next
  assume "s = js ''refs/heads/'' @ n \<and> (\<forall>c\<in>set n. \<not> isLineTerminator c)"
  then show "SHORT_REFERENCE_MATCHER s = Some n"
    by (simp add: SHORT_REFERENCE_MATCHER_def lit_append star_dot_at_end)
qed

lemma SHORT_REFERENCE_MATCHER_None:
  "SHORT_REFERENCE_MATCHER s = None \<longleftrightarrow>
     \<not> (\<exists>n. s = js ''refs/heads/'' @ n \<and> (\<forall>c\<in>set n. \<not> isLineTerminator c))"
proof -
  have "SHORT_REFERENCE_MATCHER s = None \<longleftrightarrow> \<not> (\<exists>n. SHORT_REFERENCE_MATCHER s = Some n)"
    by (cases "SHORT_REFERENCE_MATCHER s") simp_all
  then show ?thesis
    by (simp only: SHORT_REFERENCE_MATCHER_Some)
qed

section \<open>Reading a trace that was extended\<close>

lemma mutation_calls_append: "mutation_calls (a @ b) = mutation_calls a @ mutation_calls b"
  by (induction a rule: mutation_calls.induct) simp_all

lemma fetch_calls_append: "fetch_calls (a @ b) = fetch_calls a @ fetch_calls b"
  by (induction a rule: fetch_calls.induct) simp_all

lemma info_logs_append: "info_logs (a @ b) = info_logs a @ info_logs b"
  by (induction a rule: info_logs.induct) simp_all

lemma warning_logs_append: "warning_logs (a @ b) = warning_logs a @ warning_logs b"
  by (induction a rule: warning_logs.induct) simp_all

lemma error_logs_append: "error_logs (a @ b) = error_logs a @ error_logs b"
  by (induction a rule: error_logs.induct) simp_all

lemmas trace_append =
  mutation_calls_append fetch_calls_append info_logs_append warning_logs_append
  error_logs_append


lemmas evaluation =
  example_information_def example_context_def example_payload_def example_query_def
  example_node_def reviewed_def response_with_nodes_def octokit_answering_def
  edge_in_state_def payload_without_pusher_def context_without_pusher_def
  pushHandle_def pushHandle_try_def getReferenceName_def getCommitMessageHeadline_def
  getPullRequestInformation_def informationOf_def graphql_def tryMerge_def withHeadline_def
  element0_def spec_last_edge_def mutationSelector_def SHORT_REFERENCE_MATCHER_def
  COMMIT_HEADLINE_MATCHER_def js_def dot_def any_char_def at_end_def isLineTerminator_def

text \<open>The same without the handler's own functions: the inputs and the parsers only.\<close>

lemmas input_evaluation =
  example_information_def example_context_def example_payload_def example_query_def
  example_node_def reviewed_def response_with_nodes_def octokit_answering_def
  edge_in_state_def payload_without_pusher_def context_without_pusher_def
  getReferenceName_def getCommitMessageHeadline_def informationOf_def element0_def
  mutationSelector_def SHORT_REFERENCE_MATCHER_def COMMIT_HEADLINE_MATCHER_def js_def
  dot_def any_char_def at_end_def isLineTerminator_def

section \<open>The decision of \<open>tryMerge\<close>\<close>

text \<open>
  On an eligible pull request \<open>tryMerge\<close> makes one call, whatever the client answers;
  on any other it writes one info line and returns.
\<close>

lemma tryMerge_eligible:
  assumes "mergeableState i = MERGEABLE" and "\<not> merged i" and "pullRequestState i = OPEN"
  shows "snd (tryMerge selector octokit i tr) =
           tr @ [GraphqlCall (Mutation (selector (element0 (reviewEdges i)))
                   \<lparr>var_commitHeadline = commitMessageHeadline i,
                    var_pullRequestId = pullRequestId i\<rparr>)]"
  using assms by (simp add: tryMerge_def graphql_def split: sum.splits)

lemma tryMerge_skips:
  assumes "mergeableState i \<noteq> MERGEABLE \<or> merged i \<or> pullRequestState i \<noteq> OPEN"
  shows "\<exists>m. tryMerge selector octokit i tr = (Inr (), tr @ [LogInfo m])"
  using assms by (auto simp: tryMerge_def)

lemma tryMerge_mutation_calls:
  "mutation_calls (snd (tryMerge selector octokit i tr)) = mutation_calls tr
   \<or> (\<exists>d. mutation_calls (snd (tryMerge selector octokit i tr)) =
         mutation_calls tr @ [(d, \<lparr>var_commitHeadline = commitMessageHeadline i,
                                  var_pullRequestId = pullRequestId i\<rparr>)])"
proof (cases "mergeableState i = MERGEABLE \<and> \<not> merged i \<and> pullRequestState i = OPEN")
  case True
  then show ?thesis by (simp add: tryMerge_eligible trace_append)
next
  case False
  then have "mergeableState i \<noteq> MERGEABLE \<or> merged i \<or> pullRequestState i \<noteq> OPEN" by blast
  from tryMerge_skips [OF this] obtain m
    where "tryMerge selector octokit i tr = (Inr (), tr @ [LogInfo m])" by blast
  then show ?thesis by (simp add: trace_append)
qed

text \<open>
  C1, as amended. The claim has the selector applied to the last element of
  \<open>reviewEdges\<close>; the source applies it to \<open>reviewEdges[0]\<close>. For every pull request
  with \<open>mergeableState = MERGEABLE\<close>, \<open>merged = false\<close> and \<open>pullRequestState = OPEN\<close>,
  whatever the trace so far, the document of the mutation call that \<open>tryMerge\<close> adds
  is the selector applied to the first element of \<open>reviewEdges\<close>, which is the absent
  edge for an empty \<open>reviewEdges\<close>. Whenever \<open>reviewEdges\<close> has at most one element,
  that first element is also the last element.
\<close>

theorem tryMerge_selects_first_edge:
  assumes "mergeableState i = MERGEABLE" and "\<not> merged i" and "pullRequestState i = OPEN"
  shows "map fst (mutation_calls (snd (tryMerge selector octokit i tr))) =
           map fst (mutation_calls tr) @ [selector (element0 (reviewEdges i))]
         \<and> (reviewEdges i = [] \<longrightarrow> element0 (reviewEdges i) = None)
         \<and> (\<forall>e es. reviewEdges i = e # es \<longrightarrow> element0 (reviewEdges i) = e)
         \<and> (length (reviewEdges i) \<le> 1 \<longrightarrow>
              element0 (reviewEdges i) = spec_last_edge (reviewEdges i))"
proof -
  have "map fst (mutation_calls (snd (tryMerge selector octokit i tr))) =
           map fst (mutation_calls tr) @ [selector (element0 (reviewEdges i))]"
    using assms by (simp add: tryMerge_eligible mutation_calls_append)
  moreover have "length (reviewEdges i) \<le> 1 \<longrightarrow>
              element0 (reviewEdges i) = spec_last_edge (reviewEdges i)"
    by (cases "reviewEdges i") (simp_all add: element0_def spec_last_edge_def)
  ultimately show ?thesis by (simp add: element0_def)
qed

theorem tryMerge_selects_first_edge_witness:
  "mergeableState (example_information MERGEABLE False OPEN [edge_in_state APPROVED]) = MERGEABLE
   \<and> \<not> merged (example_information MERGEABLE False OPEN [edge_in_state APPROVED])
   \<and> pullRequestState (example_information MERGEABLE False OPEN [edge_in_state APPROVED]) = OPEN
   \<and> reviewEdges (example_information MERGEABLE False OPEN [edge_in_state APPROVED]) =
       edge_in_state APPROVED # []
   \<and> length (reviewEdges (example_information MERGEABLE False OPEN [edge_in_state APPROVED])) \<le> 1
   \<and> map fst (mutation_calls (snd (tryMerge mutationSelector
        (octokit_answering (Inr Null) (Inr Null))
        (example_information MERGEABLE False OPEN [edge_in_state APPROVED]) []))) = [MergeCommit]
   \<and> spec_last_edge (reviewEdges (example_information MERGEABLE False OPEN
        [edge_in_state APPROVED])) = edge_in_state APPROVED"
  using tryMerge_selects_first_edge
    [of "example_information MERGEABLE False OPEN [edge_in_state APPROVED]"
        mutationSelector "octokit_answering (Inr Null) (Inr Null)" "[]"]
  by (simp add: example_information_def element0_def mutationSelector_def edge_in_state_def)

text \<open>
  With two reviews, approved first and changes requested last, the pull request is
  eligible, the call carries the selector's answer for the first review (merge commit)
  and not its answer for the last one (squash).
\<close>

theorem tryMerge_selects_last_edge_counterexample:
  "mergeableState (example_information MERGEABLE False OPEN
        [edge_in_state APPROVED, edge_in_state CHANGES_REQUESTED]) = MERGEABLE
   \<and> \<not> merged (example_information MERGEABLE False OPEN
        [edge_in_state APPROVED, edge_in_state CHANGES_REQUESTED])
   \<and> pullRequestState (example_information MERGEABLE False OPEN
        [edge_in_state APPROVED, edge_in_state CHANGES_REQUESTED]) = OPEN
   \<and> map fst (mutation_calls (snd (tryMerge mutationSelector
        (octokit_answering (Inr Null) (Inr Null))
        (example_information MERGEABLE False OPEN
           [edge_in_state APPROVED, edge_in_state CHANGES_REQUESTED]) []))) = [MergeCommit]
   \<and> mutationSelector (spec_last_edge (reviewEdges (example_information MERGEABLE False OPEN
        [edge_in_state APPROVED, edge_in_state CHANGES_REQUESTED]))) = Squash
   \<and> map fst (mutation_calls (snd (tryMerge mutationSelector
        (octokit_answering (Inr Null) (Inr Null))
        (example_information MERGEABLE False OPEN
           [edge_in_state APPROVED, edge_in_state CHANGES_REQUESTED]) []))) \<noteq>
       [mutationSelector (spec_last_edge (reviewEdges (example_information MERGEABLE False OPEN
        [edge_in_state APPROVED, edge_in_state CHANGES_REQUESTED])))]"
  by (simp add: evaluation)

text \<open>
  C2. Over the whole space of \<open>mergeableState\<close> (three values), \<open>merged\<close> (two) and
  \<open>pullRequestState\<close> (three): when \<open>mergeableState\<close> is not \<open>MERGEABLE\<close>, or \<open>merged\<close>
  is true, or \<open>pullRequestState\<close> is not \<open>OPEN\<close>, \<open>tryMerge\<close> adds no mutation call to
  the trace (nor any other call), and returns normally.
\<close>

theorem tryMerge_no_mutation_unless_eligible:
  assumes "mergeableState i \<noteq> MERGEABLE \<or> merged i \<or> pullRequestState i \<noteq> OPEN"
  shows "mutation_calls (snd (tryMerge selector octokit i tr)) = mutation_calls tr
         \<and> fetch_calls (snd (tryMerge selector octokit i tr)) = fetch_calls tr
         \<and> fst (tryMerge selector octokit i tr) = Inr ()"
proof -
  from tryMerge_skips [OF assms] obtain m
    where "tryMerge selector octokit i tr = (Inr (), tr @ [LogInfo m])" by blast
  then show ?thesis by (simp add: trace_append)
qed

theorem tryMerge_no_mutation_unless_eligible_witness:
  "mergeableState (example_information MERGEABLE True MERGED []) = MERGEABLE
   \<and> merged (example_information MERGEABLE True MERGED [])
   \<and> pullRequestState (example_information MERGEABLE True MERGED []) \<noteq> OPEN
   \<and> mutation_calls (snd (tryMerge mutationSelector (octokit_answering (Inr Null) (Inr Null))
        (example_information MERGEABLE True MERGED []) [])) = []
   \<and> fst (tryMerge mutationSelector (octokit_answering (Inr Null) (Inr Null))
        (example_information MERGEABLE True MERGED []) []) = Inr ()"
  using tryMerge_no_mutation_unless_eligible
    [of "example_information MERGEABLE True MERGED []"
        mutationSelector "octokit_answering (Inr Null) (Inr Null)" "[]"]
  by (simp add: example_information_def)

text \<open>
  C3. Whatever the trace so far, \<open>tryMerge\<close> adds exactly one mutation call to it
  when \<open>mergeableState = MERGEABLE\<close>, \<open>merged = false\<close> and
  \<open>pullRequestState = OPEN\<close>, and the variables of that call are exactly the supplied
  commit headline and the pull request's \<open>pullRequestId\<close>; on every other input it
  adds none. It never adds a read query.
\<close>

theorem tryMerge_exactly_one_mutation:
  "map snd (mutation_calls (snd (tryMerge selector octokit i tr))) =
     map snd (mutation_calls tr) @
     (if mergeableState i = MERGEABLE \<and> \<not> merged i \<and> pullRequestState i = OPEN
      then [\<lparr>var_commitHeadline = commitMessageHeadline i, var_pullRequestId = pullRequestId i\<rparr>]
      else [])
   \<and> length (mutation_calls (snd (tryMerge selector octokit i tr))) =
       length (mutation_calls tr) +
       (if mergeableState i = MERGEABLE \<and> \<not> merged i \<and> pullRequestState i = OPEN
        then 1 else 0)
   \<and> fetch_calls (snd (tryMerge selector octokit i tr)) = fetch_calls tr"
proof (cases "mergeableState i = MERGEABLE \<and> \<not> merged i \<and> pullRequestState i = OPEN")
  case True
  then show ?thesis by (simp add: tryMerge_eligible trace_append)
next
  case False
  then have "mergeableState i \<noteq> MERGEABLE \<or> merged i \<or> pullRequestState i \<noteq> OPEN" by blast
  from tryMerge_skips [OF this] obtain m
    where "tryMerge selector octokit i tr = (Inr (), tr @ [LogInfo m])" by blast
  with False show ?thesis by (simp add: trace_append)
qed

theorem tryMerge_exactly_one_mutation_witness:
  "map snd (mutation_calls (snd (tryMerge mutationSelector
      (octokit_answering (Inr Null) (Inl (RequestError (js ''conflict''))))
      (example_information MERGEABLE False OPEN [edge_in_state APPROVED])
      [GraphqlCall (Query (example_query (js ''x''))), LogWarning UnableToFetch]))) =
     [\<lparr>var_commitHeadline = js ''Bump x'', var_pullRequestId = js ''PR_1''\<rparr>]
   \<and> map snd (mutation_calls (snd (tryMerge mutationSelector
      (octokit_answering (Inr Null) (Inr Null))
      (example_information UNKNOWN False OPEN [edge_in_state APPROVED])
      [GraphqlCall (Query (example_query (js ''x''))), LogWarning UnableToFetch]))) = []"
  using tryMerge_exactly_one_mutation
    [of mutationSelector "octokit_answering (Inr Null) (Inl (RequestError (js ''conflict'')))"
        "example_information MERGEABLE False OPEN [edge_in_state APPROVED]"
        "[GraphqlCall (Query (example_query (js ''x''))), LogWarning UnableToFetch]"]
    tryMerge_exactly_one_mutation
    [of mutationSelector "octokit_answering (Inr Null) (Inr Null)"
        "example_information UNKNOWN False OPEN [edge_in_state APPROVED]"
        "[GraphqlCall (Query (example_query (js ''x''))), LogWarning UnableToFetch]"]
  by (simp add: example_information_def)

text \<open>
  C8. The skip conditions are tested in the order mergeable state, merged flag, open
  state. Whatever the trace so far: when \<open>mergeableState\<close> is not \<open>MERGEABLE\<close>,
  \<open>tryMerge\<close> adds the not-mergeable info line, naming that state, and nothing else,
  whatever \<open>merged\<close> and \<open>pullRequestState\<close> are; it adds the already-merged line
  exactly when \<open>mergeableState = MERGEABLE\<close> and \<open>merged\<close>; it adds a not-open line
  exactly when \<open>mergeableState = MERGEABLE\<close>, \<open>merged = false\<close> and
  \<open>pullRequestState\<close> is not \<open>OPEN\<close>, and that line names that state. Accordingly
  the info lines it adds are the one line of the first condition that holds, in that
  order, and none on an eligible pull request.
\<close>

theorem tryMerge_skip_order:
  "(mergeableState i \<noteq> MERGEABLE \<longrightarrow>
      tryMerge selector octokit i tr =
        (Inr (), tr @ [LogInfo (NotMergeable (mergeableState i))]))
   \<and> (tryMerge selector octokit i tr = (Inr (), tr @ [LogInfo AlreadyMerged]) \<longleftrightarrow>
        mergeableState i = MERGEABLE \<and> merged i)
   \<and> (tryMerge selector octokit i tr = (Inr (), tr @ [LogInfo (NotOpen s)]) \<longleftrightarrow>
        mergeableState i = MERGEABLE \<and> \<not> merged i \<and> pullRequestState i \<noteq> OPEN
        \<and> s = pullRequestState i)
   \<and> info_logs (snd (tryMerge selector octokit i tr)) =
       info_logs tr @
       (if mergeableState i \<noteq> MERGEABLE then [NotMergeable (mergeableState i)]
        else if merged i then [AlreadyMerged]
        else if pullRequestState i \<noteq> OPEN then [NotOpen (pullRequestState i)]
        else [])"
  by (auto simp: tryMerge_def graphql_def trace_append split: sum.splits)

theorem tryMerge_skip_order_witness:
  "mergeableState (example_information CONFLICTING True CLOSED []) \<noteq> MERGEABLE
   \<and> merged (example_information CONFLICTING True CLOSED [])
   \<and> pullRequestState (example_information CONFLICTING True CLOSED []) \<noteq> OPEN
   \<and> tryMerge mutationSelector (octokit_answering (Inr Null) (Inr Null))
        (example_information CONFLICTING True CLOSED [])
        [GraphqlCall (Query (example_query (js ''x'')))] =
       (Inr (), [GraphqlCall (Query (example_query (js ''x''))),
                 LogInfo (NotMergeable CONFLICTING)])
   \<and> tryMerge mutationSelector (octokit_answering (Inr Null) (Inr Null))
        (example_information MERGEABLE True CLOSED [])
        [GraphqlCall (Query (example_query (js ''x'')))] =
       (Inr (), [GraphqlCall (Query (example_query (js ''x''))), LogInfo AlreadyMerged])
   \<and> tryMerge mutationSelector (octokit_answering (Inr Null) (Inr Null))
        (example_information MERGEABLE False CLOSED [])
        [GraphqlCall (Query (example_query (js ''x'')))] =
       (Inr (), [GraphqlCall (Query (example_query (js ''x''))), LogInfo (NotOpen CLOSED)])"
  using tryMerge_skip_order
    [of "example_information CONFLICTING True CLOSED []"
        mutationSelector "octokit_answering (Inr Null) (Inr Null)"
        "[GraphqlCall (Query (example_query (js ''x'')))]" CLOSED]
    tryMerge_skip_order
    [of "example_information MERGEABLE True CLOSED []"
        mutationSelector "octokit_answering (Inr Null) (Inr Null)"
        "[GraphqlCall (Query (example_query (js ''x'')))]" CLOSED]
    tryMerge_skip_order
    [of "example_information MERGEABLE False CLOSED []"
        mutationSelector "octokit_answering (Inr Null) (Inr Null)"
        "[GraphqlCall (Query (example_query (js ''x'')))]" CLOSED]
  by (simp add: example_information_def)

section \<open>Fetching the pull request\<close>

text \<open>\<open>getPullRequestInformation\<close> always makes exactly one call, the read query.\<close>

lemma getPullRequestInformation_trace:
  "snd (getPullRequestInformation octokit query tr) = tr @ [GraphqlCall (Query query)]"
  by (simp add: getPullRequestInformation_def graphql_def split: sum.splits)

lemma getPullRequestInformation_result:
  "fst (getPullRequestInformation octokit query tr) =
     (case octokit (Query query) of Inl e \<Rightarrow> Inl e | Inr response \<Rightarrow> informationOf response)"
  by (simp add: getPullRequestInformation_def graphql_def split: sum.splits)

lemma informationOf_None:
  "informationOf response = Inr None \<longleftrightarrow>
     response = Null
     \<or> (\<exists>body r prs. response = Defined body \<and> repository body = Defined r
           \<and> pullRequests r = Defined prs \<and> nodes prs = Defined [])"
proof (cases response)
  case Null
  then show ?thesis by (simp add: informationOf_def)
next
  case Undefined
  then show ?thesis by (simp add: informationOf_def)
next
  case (Defined body)
  show ?thesis
  proof (cases "repository body")
    case (Defined r)
    show ?thesis
    proof (cases "pullRequests r")
      case prs: (Defined prs)
      show ?thesis
      proof (cases "nodes prs")
        case ns: (Defined ns)
        show ?thesis
        proof (cases ns)
          case Nil
          with \<open>response = Defined body\<close> Defined prs ns show ?thesis
            by (simp add: informationOf_def)
        next
          case (Cons m ms)
          with \<open>response = Defined body\<close> Defined prs ns show ?thesis
            by (cases m; cases "pr_reviews (case m of Defined n \<Rightarrow> n)")
               (simp_all add: informationOf_def)
        qed
      qed (use \<open>response = Defined body\<close> Defined prs in \<open>simp_all add: informationOf_def\<close>)
    qed (use \<open>response = Defined body\<close> Defined in \<open>simp_all add: informationOf_def\<close>)
  qed (use \<open>response = Defined body\<close> in \<open>simp_all add: informationOf_def\<close>)
qed

lemma informationOf_first_node:
  assumes "repository body = Defined r" and "pullRequests r = Defined prs"
    and "nodes prs = Defined (Defined n # ns)"
  shows "informationOf (Defined body) =
           (case pr_reviews n of
              Null \<Rightarrow> Inl TypeError
            | Undefined \<Rightarrow> Inl TypeError
            | Defined rv \<Rightarrow>
                Inr (Some \<lparr>mergeableState = pr_mergeable n, merged = pr_merged n,
                           pullRequestId = pr_id n, pullRequestState = pr_state n,
                           reviewEdges = edges rv\<rparr>))"
  using assms by (simp add: informationOf_def)

text \<open>
  C10. \<open>getPullRequestInformation\<close> returns \<open>undefined\<close> (not found) exactly when the
  query resolves to \<open>null\<close> or to a response whose \<open>nodes\<close> list is empty. It throws
  a TypeError, and does not answer "not found", when the response is not \<open>null\<close> but
  \<open>undefined\<close>, and when the response is an object whose \<open>repository\<close> is \<open>null\<close> or
  absent or whose \<open>repository.pullRequests\<close> is \<open>null\<close> or absent. When the \<open>nodes\<close>
  list starts with a node, the outcome is read off that node alone: a TypeError when
  the node's \<open>reviews\<close> is \<open>null\<close> or absent, and otherwise the information made of
  that node's five values; so whatever information is returned is built from the first
  node, and the other nodes do not occur in it.
\<close>

theorem getPullRequestInformation_not_found:
  "(fst (getPullRequestInformation octokit query tr) = Inr None \<longleftrightarrow>
      octokit (Query query) = Inr Null
      \<or> (\<exists>body r prs. octokit (Query query) = Inr (Defined body)
            \<and> repository body = Defined r \<and> pullRequests r = Defined prs
            \<and> nodes prs = Defined []))
   \<and> (octokit (Query query) = Inr Undefined \<longrightarrow>
        fst (getPullRequestInformation octokit query tr) = Inl TypeError)
   \<and> (octokit (Query query) = Inr (Defined body)
        \<and> (repository body = Null \<or> repository body = Undefined
            \<or> (\<exists>r. repository body = Defined r
                  \<and> (pullRequests r = Null \<or> pullRequests r = Undefined))) \<longrightarrow>
        fst (getPullRequestInformation octokit query tr) = Inl TypeError)
   \<and> (octokit (Query query) = Inr (Defined body') \<and> repository body' = Defined r'
        \<and> pullRequests r' = Defined prs' \<and> nodes prs' = Defined (Defined n # ns) \<longrightarrow>
        fst (getPullRequestInformation octokit query tr) =
          (case pr_reviews n of
             Null \<Rightarrow> Inl TypeError
           | Undefined \<Rightarrow> Inl TypeError
           | Defined rv \<Rightarrow>
               Inr (Some \<lparr>mergeableState = pr_mergeable n, merged = pr_merged n,
                          pullRequestId = pr_id n, pullRequestState = pr_state n,
                          reviewEdges = edges rv\<rparr>))
        \<and> (\<forall>info. fst (getPullRequestInformation octokit query tr) = Inr (Some info) \<longrightarrow>
              (\<exists>rv. pr_reviews n = Defined rv
                 \<and> info = \<lparr>mergeableState = pr_mergeable n, merged = pr_merged n,
                            pullRequestId = pr_id n, pullRequestState = pr_state n,
                            reviewEdges = edges rv\<rparr>)))"
proof (intro conjI impI)
  show "fst (getPullRequestInformation octokit query tr) = Inr None \<longleftrightarrow>
      octokit (Query query) = Inr Null
      \<or> (\<exists>body r prs. octokit (Query query) = Inr (Defined body)
            \<and> repository body = Defined r \<and> pullRequests r = Defined prs
            \<and> nodes prs = Defined [])"
    by (cases "octokit (Query query)")
       (simp_all add: getPullRequestInformation_result informationOf_None)
next
  assume "octokit (Query query) = Inr Undefined"
  then show "fst (getPullRequestInformation octokit query tr) = Inl TypeError"
    by (simp add: getPullRequestInformation_result informationOf_def)
next
  assume "octokit (Query query) = Inr (Defined body)
        \<and> (repository body = Null \<or> repository body = Undefined
            \<or> (\<exists>r. repository body = Defined r
                  \<and> (pullRequests r = Null \<or> pullRequests r = Undefined)))"
  then show "fst (getPullRequestInformation octokit query tr) = Inl TypeError"
    by (elim conjE disjE exE) (simp_all add: getPullRequestInformation_result informationOf_def)
next
  assume a: "octokit (Query query) = Inr (Defined body') \<and> repository body' = Defined r'
        \<and> pullRequests r' = Defined prs' \<and> nodes prs' = Defined (Defined n # ns)"
  then have i: "informationOf (Defined body') =
          (case pr_reviews n of
             Null \<Rightarrow> Inl TypeError
           | Undefined \<Rightarrow> Inl TypeError
           | Defined rv \<Rightarrow>
               Inr (Some \<lparr>mergeableState = pr_mergeable n, merged = pr_merged n,
                          pullRequestId = pr_id n, pullRequestState = pr_state n,
                          reviewEdges = edges rv\<rparr>))"
    by (simp add: informationOf_first_node)
  from a i show first: "fst (getPullRequestInformation octokit query tr) =
          (case pr_reviews n of
             Null \<Rightarrow> Inl TypeError
           | Undefined \<Rightarrow> Inl TypeError
           | Defined rv \<Rightarrow>
               Inr (Some \<lparr>mergeableState = pr_mergeable n, merged = pr_merged n,
                          pullRequestId = pr_id n, pullRequestState = pr_state n,
                          reviewEdges = edges rv\<rparr>))"
    by (simp add: getPullRequestInformation_result)
  show "\<forall>info. fst (getPullRequestInformation octokit query tr) = Inr (Some info) \<longrightarrow>
              (\<exists>rv. pr_reviews n = Defined rv
                 \<and> info = \<lparr>mergeableState = pr_mergeable n, merged = pr_merged n,
                            pullRequestId = pr_id n, pullRequestState = pr_state n,
                            reviewEdges = edges rv\<rparr>)"
    unfolding first by (cases "pr_reviews n") auto
qed

theorem getPullRequestInformation_not_found_witness:
  "fst (getPullRequestInformation
          (octokit_answering (Inr (response_with_nodes (Defined []))) (Inr Null)
             :: merge_strategy octokit)
          (example_query (js ''x'')) []) = Inr None
   \<and> fst (getPullRequestInformation
          (octokit_answering (Inr Null) (Inr Null) :: merge_strategy octokit)
          (example_query (js ''x'')) []) = Inr None
   \<and> fst (getPullRequestInformation
          (octokit_answering (Inr Undefined) (Inr Null) :: merge_strategy octokit)
          (example_query (js ''x'')) []) = Inl TypeError
   \<and> fst (getPullRequestInformation
          (octokit_answering (Inr (Defined \<lparr>repository = Null\<rparr>)) (Inr Null)
             :: merge_strategy octokit)
          (example_query (js ''x'')) []) = Inl TypeError
   \<and> fst (getPullRequestInformation
          (octokit_answering
             (Inr (Defined \<lparr>repository = Defined \<lparr>pullRequests = Undefined\<rparr>\<rparr>)) (Inr Null)
             :: merge_strategy octokit)
          (example_query (js ''x'')) []) = Inl TypeError
   \<and> fst (getPullRequestInformation
          (octokit_answering
             (Inr (response_with_nodes (Defined [reviewed [edge_in_state APPROVED], Null])))
             (Inr Null) :: merge_strategy octokit)
          (example_query (js ''x'')) []) =
       Inr (Some \<lparr>mergeableState = MERGEABLE, merged = False, pullRequestId = js ''PR_1'',
                  pullRequestState = OPEN, reviewEdges = [edge_in_state APPROVED]\<rparr>)
   \<and> fst (getPullRequestInformation
          (octokit_answering
             (Inr (response_with_nodes (Defined [Defined (example_node Null)])))
             (Inr Null) :: merge_strategy octokit)
          (example_query (js ''x'')) []) = Inl TypeError"
proof -
  note T = getPullRequestInformation_not_found
  have empty: "fst (getPullRequestInformation
          (octokit_answering (Inr (response_with_nodes (Defined []))) (Inr Null)
             :: merge_strategy octokit)
          (example_query (js ''x'')) []) = Inr None"
    by (rule T [THEN conjunct1, THEN iffD2], rule disjI2,
        rule exI [of _ "\<lparr>repository = Defined \<lparr>pullRequests = Defined \<lparr>nodes = Defined []\<rparr>\<rparr>\<rparr>"],
        rule exI [of _ "\<lparr>pullRequests = Defined \<lparr>nodes = Defined []\<rparr>\<rparr>"],
        rule exI [of _ "\<lparr>nodes = Defined []\<rparr>"])
       (simp add: octokit_answering_def response_with_nodes_def)
  have null: "fst (getPullRequestInformation
          (octokit_answering (Inr Null) (Inr Null) :: merge_strategy octokit)
          (example_query (js ''x'')) []) = Inr None"
    by (rule T [THEN conjunct1, THEN iffD2], rule disjI1) (simp add: octokit_answering_def)
  have undefined: "fst (getPullRequestInformation
          (octokit_answering (Inr Undefined) (Inr Null) :: merge_strategy octokit)
          (example_query (js ''x'')) []) = Inl TypeError"
    by (rule T [THEN conjunct2, THEN conjunct1, THEN mp]) (simp add: octokit_answering_def)
  have no_repository: "fst (getPullRequestInformation
          (octokit_answering (Inr (Defined \<lparr>repository = Null\<rparr>)) (Inr Null)
             :: merge_strategy octokit)
          (example_query (js ''x'')) []) = Inl TypeError"
    by (rule T [of _ _ _ "\<lparr>repository = Null\<rparr>",
                THEN conjunct2, THEN conjunct2, THEN conjunct1, THEN mp])
       (simp add: octokit_answering_def)
  have no_pullRequests: "fst (getPullRequestInformation
          (octokit_answering
             (Inr (Defined \<lparr>repository = Defined \<lparr>pullRequests = Undefined\<rparr>\<rparr>)) (Inr Null)
             :: merge_strategy octokit)
          (example_query (js ''x'')) []) = Inl TypeError"
    by (rule T [of _ _ _ "\<lparr>repository = Defined \<lparr>pullRequests = Undefined\<rparr>\<rparr>",
                THEN conjunct2, THEN conjunct2, THEN conjunct1, THEN mp])
       (simp add: octokit_answering_def)
  have "fst (getPullRequestInformation
          (octokit_answering
             (Inr (response_with_nodes (Defined [reviewed [edge_in_state APPROVED], Null])))
             (Inr Null) :: merge_strategy octokit)
          (example_query (js ''x'')) []) =
        (case pr_reviews (example_node (Defined \<lparr>edges = [edge_in_state APPROVED]\<rparr>)) of
             Null \<Rightarrow> Inl TypeError
           | Undefined \<Rightarrow> Inl TypeError
           | Defined rv \<Rightarrow>
               Inr (Some \<lparr>mergeableState =
                            pr_mergeable (example_node (Defined \<lparr>edges = [edge_in_state APPROVED]\<rparr>)),
                          merged = pr_merged (example_node (Defined \<lparr>edges = [edge_in_state APPROVED]\<rparr>)),
                          pullRequestId = pr_id (example_node (Defined \<lparr>edges = [edge_in_state APPROVED]\<rparr>)),
                          pullRequestState =
                            pr_state (example_node (Defined \<lparr>edges = [edge_in_state APPROVED]\<rparr>)),
                          reviewEdges = edges rv\<rparr>))"
    by (rule T [of _ _ _ _
                "\<lparr>repository = Defined \<lparr>pullRequests = Defined
                    \<lparr>nodes = Defined [reviewed [edge_in_state APPROVED], Null]\<rparr>\<rparr>\<rparr>"
                "\<lparr>pullRequests = Defined
                    \<lparr>nodes = Defined [reviewed [edge_in_state APPROVED], Null]\<rparr>\<rparr>"
                "\<lparr>nodes = Defined [reviewed [edge_in_state APPROVED], Null]\<rparr>"
                "example_node (Defined \<lparr>edges = [edge_in_state APPROVED]\<rparr>)" "[Null]",
                THEN conjunct2, THEN conjunct2, THEN conjunct2, THEN mp, THEN conjunct1])
       (simp add: octokit_answering_def response_with_nodes_def reviewed_def)
  then have found: "fst (getPullRequestInformation
          (octokit_answering
             (Inr (response_with_nodes (Defined [reviewed [edge_in_state APPROVED], Null])))
             (Inr Null) :: merge_strategy octokit)
          (example_query (js ''x'')) []) =
       Inr (Some \<lparr>mergeableState = MERGEABLE, merged = False, pullRequestId = js ''PR_1'',
                  pullRequestState = OPEN, reviewEdges = [edge_in_state APPROVED]\<rparr>)"
    by (simp add: example_node_def)
  have "fst (getPullRequestInformation
          (octokit_answering
             (Inr (response_with_nodes (Defined [Defined (example_node Null)])))
             (Inr Null) :: merge_strategy octokit)
          (example_query (js ''x'')) []) =
        (case pr_reviews (example_node Null) of
             Null \<Rightarrow> Inl TypeError
           | Undefined \<Rightarrow> Inl TypeError
           | Defined rv \<Rightarrow>
               Inr (Some \<lparr>mergeableState = pr_mergeable (example_node Null),
                          merged = pr_merged (example_node Null),
                          pullRequestId = pr_id (example_node Null),
                          pullRequestState = pr_state (example_node Null),
                          reviewEdges = edges rv\<rparr>))"
    by (rule T [of _ _ _ _
                "\<lparr>repository = Defined \<lparr>pullRequests = Defined
                    \<lparr>nodes = Defined [Defined (example_node Null)]\<rparr>\<rparr>\<rparr>"
                "\<lparr>pullRequests = Defined \<lparr>nodes = Defined [Defined (example_node Null)]\<rparr>\<rparr>"
                "\<lparr>nodes = Defined [Defined (example_node Null)]\<rparr>"
                "example_node Null" "[]",
                THEN conjunct2, THEN conjunct2, THEN conjunct2, THEN mp, THEN conjunct1])
       (simp add: octokit_answering_def response_with_nodes_def)
  then have no_reviews: "fst (getPullRequestInformation
          (octokit_answering
             (Inr (response_with_nodes (Defined [Defined (example_node Null)])))
             (Inr Null) :: merge_strategy octokit)
          (example_query (js ''x'')) []) = Inl TypeError"
    by (simp add: example_node_def)
  from empty null undefined no_repository no_pullRequests found no_reviews
  show ?thesis by (intro conjI)
qed

section \<open>The two parsers\<close>

text \<open>
  C6, as amended. The claim has every string \<open>refs/heads/\<close> followed by a suffix
  parsed to that suffix; the pattern's \<open>.\<close> does not match a line terminator and
  \<open>$\<close> is the end of the string, so a suffix with a line terminator in it does not
  match. For every reference \<open>refs/heads/\<close> followed by a suffix without line
  terminator (LF, CR, U+2028, U+2029), \<open>getReferenceName\<close> returns exactly that
  suffix; for every reference string that is not of that form it throws (the TypeError
  of destructuring the null match) and returns nothing.
\<close>

theorem getReferenceName_short_name:
  "(ref p = Some (js ''refs/heads/'' @ suffix) \<and> (\<forall>c\<in>set suffix. \<not> isLineTerminator c) \<longrightarrow>
      getReferenceName p = Inr suffix)
   \<and> (ref q = Some r
        \<and> \<not> (\<exists>n. r = js ''refs/heads/'' @ n \<and> (\<forall>c\<in>set n. \<not> isLineTerminator c)) \<longrightarrow>
      getReferenceName q = Inl TypeError)"
proof (intro conjI impI)
  assume "ref p = Some (js ''refs/heads/'' @ suffix) \<and> (\<forall>c\<in>set suffix. \<not> isLineTerminator c)"
  then have "ref p = Some (js ''refs/heads/'' @ suffix)"
    and "SHORT_REFERENCE_MATCHER (js ''refs/heads/'' @ suffix) = Some suffix"
    by (simp_all add: SHORT_REFERENCE_MATCHER_Some)
  then show "getReferenceName p = Inr suffix"
    by (simp add: getReferenceName_def)
next
  assume "ref q = Some r
        \<and> \<not> (\<exists>n. r = js ''refs/heads/'' @ n \<and> (\<forall>c\<in>set n. \<not> isLineTerminator c))"
  then have "ref q = Some r" and "SHORT_REFERENCE_MATCHER r = None"
    by (simp_all add: SHORT_REFERENCE_MATCHER_None)
  then show "getReferenceName q = Inl TypeError"
    by (simp add: getReferenceName_def)
qed

theorem getReferenceName_short_name_witness:
  "ref (example_payload (js ''refs/heads/feature/x'') (js ''bot'') None) =
     Some (js ''refs/heads/'' @ js ''feature/x'')
   \<and> getReferenceName (example_payload (js ''refs/heads/feature/x'') (js ''bot'') None) =
       Inr (js ''feature/x'')
   \<and> ref (example_payload (js ''refs/tags/v1'') (js ''bot'') None) = Some (js ''refs/tags/v1'')
   \<and> getReferenceName (example_payload (js ''refs/tags/v1'') (js ''bot'') None) = Inl TypeError"
  using getReferenceName_short_name
    [of "example_payload (js ''refs/heads/feature/x'') (js ''bot'') None" "js ''feature/x''"
        "example_payload (js ''refs/tags/v1'') (js ''bot'') None" "js ''refs/tags/v1''"]
  by (simp add: example_payload_def js_def isLineTerminator_def)

text \<open>
  The reference \<open>refs/heads/\<close> followed by the three characters \<open>a\<close>, U+2028,
  \<open>b\<close> (a name git accepts for a branch) is of the form prefix and suffix, and the
  parser throws on it.
\<close>

theorem getReferenceName_line_separator_counterexample:
  "ref (example_payload (js ''refs/heads/'' @ [0x61, 0x2028, 0x62]) (js ''bot'') None) =
     Some (js ''refs/heads/'' @ [0x61, 0x2028, 0x62])
   \<and> getReferenceName (example_payload (js ''refs/heads/'' @ [0x61, 0x2028, 0x62])
        (js ''bot'') None) = Inl TypeError
   \<and> getReferenceName (example_payload (js ''refs/heads/'' @ [0x61, 0x2028, 0x62])
        (js ''bot'') None) \<noteq> Inr [0x61, 0x2028, 0x62]"
  by (simp add: evaluation)

lemma getCommitMessageHeadline_Cons:
  "commits p = Some (c # cs) \<Longrightarrow>
     getCommitMessageHeadline p = Inr (takeWhile (\<lambda>u. \<not> isLineTerminator u) (message c))"
  by (simp add: getCommitMessageHeadline_def COMMIT_HEADLINE_MATCHER_takeWhile)

text \<open>
  C7. For every commit message (the message of the first commit of the payload),
  \<open>getCommitMessageHeadline\<close> returns the text before the first line break: the
  longest prefix without a line terminator (LF, CR, U+2028, U+2029), the terminator not
  included. It is idempotent: a message without line break is returned unchanged, and
  so is the parser's own output when it is parsed again.
\<close>

theorem getCommitMessageHeadline_first_line:
  "(commits p = Some (c # cs) \<longrightarrow>
      getCommitMessageHeadline p =
        Inr (takeWhile (\<lambda>u. \<not> isLineTerminator u) (message c)))
   \<and> (commits p = Some (c # cs) \<and> (\<forall>u\<in>set (message c). \<not> isLineTerminator u) \<longrightarrow>
        getCommitMessageHeadline p = Inr (message c))
   \<and> (commits p = Some (c # cs) \<and> getCommitMessageHeadline p = Inr h
        \<and> commits p' = Some (c\<lparr>message := h\<rparr> # cs') \<longrightarrow>
        getCommitMessageHeadline p' = Inr h)"
proof -
  have first: "getCommitMessageHeadline x =
        Inr (takeWhile (\<lambda>u. \<not> isLineTerminator u) (message d))"
    if "commits x = Some (d # ds)" for x d ds
    using that by (simp add: getCommitMessageHeadline_def COMMIT_HEADLINE_MATCHER_takeWhile)
  have "getCommitMessageHeadline p = Inr (message c)"
    if "commits p = Some (c # cs)" and "\<forall>u\<in>set (message c). \<not> isLineTerminator u"
    using that first [of p c cs] by (simp add: takeWhile_eq_all_conv)
  moreover have "getCommitMessageHeadline p' = Inr h"
    if "commits p = Some (c # cs)" and "getCommitMessageHeadline p = Inr h"
      and "commits p' = Some (c\<lparr>message := h\<rparr> # cs')"
  proof -
    from that(1,2) first [of p c cs]
    have h: "h = takeWhile (\<lambda>u. \<not> isLineTerminator u) (message c)" by simp
    from that(3) first [of p' "c\<lparr>message := h\<rparr>" cs']
    have "getCommitMessageHeadline p' = Inr (takeWhile (\<lambda>u. \<not> isLineTerminator u) h)" by simp
    also have "takeWhile (\<lambda>u. \<not> isLineTerminator u) h = h"
      unfolding h by (rule takeWhile_idem)
    finally show ?thesis .
  qed
  ultimately show ?thesis using first [of p c cs] by blast
qed

theorem getCommitMessageHeadline_first_line_witness:
  "commits (example_payload (js ''refs/heads/x'') (js ''bot'')
       (Some [\<lparr>message = js ''Bump x'' @ [0x0A, 0x0A] @ js ''Body''\<rparr>])) =
     Some (\<lparr>message = js ''Bump x'' @ [0x0A, 0x0A] @ js ''Body''\<rparr> # [])
   \<and> getCommitMessageHeadline (example_payload (js ''refs/heads/x'') (js ''bot'')
       (Some [\<lparr>message = js ''Bump x'' @ [0x0A, 0x0A] @ js ''Body''\<rparr>])) = Inr (js ''Bump x'')
   \<and> commits (example_payload (js ''refs/heads/x'') (js ''bot'')
       (Some [\<lparr>message = js ''Bump x''\<rparr>])) =
     Some (\<lparr>message = js ''Bump x'' @ [0x0A, 0x0A] @ js ''Body''\<rparr>\<lparr>message := js ''Bump x''\<rparr> # [])
   \<and> getCommitMessageHeadline (example_payload (js ''refs/heads/x'') (js ''bot'')
       (Some [\<lparr>message = js ''Bump x''\<rparr>])) = Inr (js ''Bump x'')"
  using getCommitMessageHeadline_first_line
    [of "example_payload (js ''refs/heads/x'') (js ''bot'')
           (Some [\<lparr>message = js ''Bump x'' @ [0x0A, 0x0A] @ js ''Body''\<rparr>])"
        "\<lparr>message = js ''Bump x'' @ [0x0A, 0x0A] @ js ''Body''\<rparr>" "[]" "js ''Bump x''"
        "example_payload (js ''refs/heads/x'') (js ''bot'') (Some [\<lparr>message = js ''Bump x''\<rparr>])"
        "[]"]
    getCommitMessageHeadline_first_line
    [of "example_payload (js ''refs/heads/x'') (js ''bot'') (Some [\<lparr>message = js ''Bump x''\<rparr>])"
        "\<lparr>message = js ''Bump x''\<rparr>" "[]" "js ''Bump x''"
        "example_payload (js ''refs/heads/x'') (js ''bot'') (Some [\<lparr>message = js ''Bump x''\<rparr>])"
        "[]"]
  by (simp add: example_payload_def js_def isLineTerminator_def)

section \<open>The handler as a whole\<close>

text \<open>
  What \<open>pushHandle\<close> leaves in the trace for each way the \<open>try\<close> block can end
  early: a reference that does not parse, a rejected query, nothing found, a response
  that cannot be destructured, a headline that cannot be extracted, a rejected
  mutation. Each error ends as one error line.
\<close>

lemma pushHandle_parse_failure:
  assumes "pusher (payload ctx) = Some p" and "name p = gitHubLogin"
    and "getReferenceName (payload ctx) = Inl e"
  shows "pushHandle selector octokit gitHubLogin ctx tr = (Inr (), tr @ [LogError e])"
  using assms by (simp add: pushHandle_def pushHandle_try_def)

lemma pushHandle_fetch_failure:
  assumes "pusher (payload ctx) = Some p" and "name p = gitHubLogin"
    and "getReferenceName (payload ctx) = Inr rn"
    and "octokit (Query \<lparr>referenceName = rn, repositoryName = repo_repo ctx,
                         repositoryOwner = repo_owner ctx\<rparr>) = Inl e"
  shows "pushHandle selector octokit gitHubLogin ctx tr =
           (Inr (), tr @ [GraphqlCall (Query \<lparr>referenceName = rn,
                            repositoryName = repo_repo ctx,
                            repositoryOwner = repo_owner ctx\<rparr>), LogError e])"
  using assms
  by (simp add: pushHandle_def pushHandle_try_def getPullRequestInformation_def graphql_def)

lemma pushHandle_not_found:
  assumes "pusher (payload ctx) = Some p" and "name p = gitHubLogin"
    and "getReferenceName (payload ctx) = Inr rn"
    and "octokit (Query \<lparr>referenceName = rn, repositoryName = repo_repo ctx,
                         repositoryOwner = repo_owner ctx\<rparr>) = Inr response"
    and "informationOf response = Inr None"
  shows "pushHandle selector octokit gitHubLogin ctx tr =
           (Inr (), tr @ [GraphqlCall (Query \<lparr>referenceName = rn,
                            repositoryName = repo_repo ctx,
                            repositoryOwner = repo_owner ctx\<rparr>), LogWarning UnableToFetch])"
  using assms
  by (simp add: pushHandle_def pushHandle_try_def getPullRequestInformation_def graphql_def)

lemma pushHandle_malformed_response:
  assumes "pusher (payload ctx) = Some p" and "name p = gitHubLogin"
    and "getReferenceName (payload ctx) = Inr rn"
    and "octokit (Query \<lparr>referenceName = rn, repositoryName = repo_repo ctx,
                         repositoryOwner = repo_owner ctx\<rparr>) = Inr response"
    and "informationOf response = Inl e"
  shows "pushHandle selector octokit gitHubLogin ctx tr =
           (Inr (), tr @ [GraphqlCall (Query \<lparr>referenceName = rn,
                            repositoryName = repo_repo ctx,
                            repositoryOwner = repo_owner ctx\<rparr>), LogError e])"
  using assms
  by (simp add: pushHandle_def pushHandle_try_def getPullRequestInformation_def graphql_def)

lemma pushHandle_headline_failure:
  assumes "pusher (payload ctx) = Some p" and "name p = gitHubLogin"
    and "getReferenceName (payload ctx) = Inr rn"
    and "octokit (Query \<lparr>referenceName = rn, repositoryName = repo_repo ctx,
                         repositoryOwner = repo_owner ctx\<rparr>) = Inr response"
    and "informationOf response = Inr (Some i)"
    and "getCommitMessageHeadline (payload ctx) = Inl e"
  shows "pushHandle selector octokit gitHubLogin ctx tr =
           (Inr (), tr @ [GraphqlCall (Query \<lparr>referenceName = rn,
                            repositoryName = repo_repo ctx,
                            repositoryOwner = repo_owner ctx\<rparr>),
                          LogInfo (FoundInformation i), LogError e])"
  using assms
  by (simp add: pushHandle_def pushHandle_try_def getPullRequestInformation_def graphql_def)

lemma pushHandle_mutation_failure:
  assumes "pusher (payload ctx) = Some p" and "name p = gitHubLogin"
    and "getReferenceName (payload ctx) = Inr rn"
    and "octokit (Query \<lparr>referenceName = rn, repositoryName = repo_repo ctx,
                         repositoryOwner = repo_owner ctx\<rparr>) = Inr response"
    and "informationOf response = Inr (Some i)"
    and "getCommitMessageHeadline (payload ctx) = Inr h"
    and "mergeableState i = MERGEABLE" and "\<not> merged i" and "pullRequestState i = OPEN"
    and "octokit (Mutation (selector (element0 (reviewEdges i)))
                   \<lparr>var_commitHeadline = h, var_pullRequestId = pullRequestId i\<rparr>) = Inl e"
  shows "pushHandle selector octokit gitHubLogin ctx tr =
           (Inr (), tr @ [GraphqlCall (Query \<lparr>referenceName = rn,
                            repositoryName = repo_repo ctx,
                            repositoryOwner = repo_owner ctx\<rparr>),
                          LogInfo (FoundInformation i),
                          GraphqlCall (Mutation (selector (element0 (reviewEdges i)))
                            \<lparr>var_commitHeadline = h, var_pullRequestId = pullRequestId i\<rparr>),
                          LogError e])"
  using assms
  by (simp add: pushHandle_def pushHandle_try_def getPullRequestInformation_def graphql_def
      tryMerge_def withHeadline_def)

lemma pushHandle_returns:
  "fst (pushHandle selector octokit gitHubLogin ctx tr) =
     (case pusher (payload ctx) of None \<Rightarrow> Inl TypeError | Some p \<Rightarrow> Inr ())"
  by (simp add: pushHandle_def split: option.splits prod.splits sum.splits)

text \<open>
  C4, as amended. The claim has \<open>pushHandle\<close> never propagate an error; the login
  test reads \<open>context.payload.pusher.name\<close> before the \<open>try\<close> block, so on a payload
  without \<open>pusher\<close> the TypeError of that read leaves \<open>pushHandle\<close>, with nothing
  logged. \<open>pushHandle\<close> returns normally exactly when the payload carries \<open>pusher\<close>.
  For every invocation whose payload carries \<open>pusher\<close>, with the configured login,
  every error raised during processing is caught and written as an error line, the
  last entry of the trace, after which \<open>pushHandle\<close> returns normally: a reference
  that does not parse (nothing else is done), a rejected query and a response that
  cannot be destructured (after the one read query), a headline that cannot be
  extracted (after the read query and the "found" info line), and a rejected mutation
  (after the read query, the info line and the one mutation call).
\<close>

theorem pushHandle_catches_and_logs:
  "(fst (pushHandle selector octokit gitHubLogin ctx tr) = Inr () \<longleftrightarrow>
      pusher (payload ctx) \<noteq> None)
   \<and> (pusher (payload ctx) = None \<longrightarrow>
        pushHandle selector octokit gitHubLogin ctx tr = (Inl TypeError, tr))
   \<and> (pusher (payload ctx) = Some p \<and> name p = gitHubLogin \<longrightarrow>
        (\<forall>e. getReferenceName (payload ctx) = Inl e \<longrightarrow>
           pushHandle selector octokit gitHubLogin ctx tr = (Inr (), tr @ [LogError e]))
      \<and> (\<forall>rn e. getReferenceName (payload ctx) = Inr rn
            \<and> octokit (Query \<lparr>referenceName = rn, repositoryName = repo_repo ctx,
                                repositoryOwner = repo_owner ctx\<rparr>) = Inl e \<longrightarrow>
           pushHandle selector octokit gitHubLogin ctx tr =
             (Inr (), tr @ [GraphqlCall (Query \<lparr>referenceName = rn,
                              repositoryName = repo_repo ctx,
                              repositoryOwner = repo_owner ctx\<rparr>), LogError e]))
      \<and> (\<forall>rn response e. getReferenceName (payload ctx) = Inr rn
            \<and> octokit (Query \<lparr>referenceName = rn, repositoryName = repo_repo ctx,
                                repositoryOwner = repo_owner ctx\<rparr>) = Inr response
            \<and> informationOf response = Inl e \<longrightarrow>
           pushHandle selector octokit gitHubLogin ctx tr =
             (Inr (), tr @ [GraphqlCall (Query \<lparr>referenceName = rn,
                              repositoryName = repo_repo ctx,
                              repositoryOwner = repo_owner ctx\<rparr>), LogError e]))
      \<and> (\<forall>rn response i e. getReferenceName (payload ctx) = Inr rn
            \<and> octokit (Query \<lparr>referenceName = rn, repositoryName = repo_repo ctx,
                                repositoryOwner = repo_owner ctx\<rparr>) = Inr response
            \<and> informationOf response = Inr (Some i)
            \<and> getCommitMessageHeadline (payload ctx) = Inl e \<longrightarrow>
           pushHandle selector octokit gitHubLogin ctx tr =
             (Inr (), tr @ [GraphqlCall (Query \<lparr>referenceName = rn,
                              repositoryName = repo_repo ctx,
                              repositoryOwner = repo_owner ctx\<rparr>),
                            LogInfo (FoundInformation i), LogError e]))
      \<and> (\<forall>rn response i h e. getReferenceName (payload ctx) = Inr rn
            \<and> octokit (Query \<lparr>referenceName = rn, repositoryName = repo_repo ctx,
                                repositoryOwner = repo_owner ctx\<rparr>) = Inr response
            \<and> informationOf response = Inr (Some i)
            \<and> getCommitMessageHeadline (payload ctx) = Inr h
            \<and> mergeableState i = MERGEABLE \<and> \<not> merged i \<and> pullRequestState i = OPEN
            \<and> octokit (Mutation (selector (element0 (reviewEdges i)))
                  \<lparr>var_commitHeadline = h, var_pullRequestId = pullRequestId i\<rparr>) = Inl e \<longrightarrow>
           pushHandle selector octokit gitHubLogin ctx tr =
             (Inr (), tr @ [GraphqlCall (Query \<lparr>referenceName = rn,
                              repositoryName = repo_repo ctx,
                              repositoryOwner = repo_owner ctx\<rparr>),
                            LogInfo (FoundInformation i),
                            GraphqlCall (Mutation (selector (element0 (reviewEdges i)))
                              \<lparr>var_commitHeadline = h,
                               var_pullRequestId = pullRequestId i\<rparr>),
                            LogError e])))"
proof (intro conjI impI allI)
  show "fst (pushHandle selector octokit gitHubLogin ctx tr) = Inr () \<longleftrightarrow>
      pusher (payload ctx) \<noteq> None"
    by (simp add: pushHandle_returns split: option.splits)
next
  assume "pusher (payload ctx) = None"
  then show "pushHandle selector octokit gitHubLogin ctx tr = (Inl TypeError, tr)"
    by (simp add: pushHandle_def)
next
  fix e
  assume "pusher (payload ctx) = Some p \<and> name p = gitHubLogin"
    and "getReferenceName (payload ctx) = Inl e"
  then show "pushHandle selector octokit gitHubLogin ctx tr = (Inr (), tr @ [LogError e])"
    by (simp add: pushHandle_parse_failure)
next
  fix rn e
  assume "pusher (payload ctx) = Some p \<and> name p = gitHubLogin"
    and "getReferenceName (payload ctx) = Inr rn
            \<and> octokit (Query \<lparr>referenceName = rn, repositoryName = repo_repo ctx,
                                repositoryOwner = repo_owner ctx\<rparr>) = Inl e"
  then show "pushHandle selector octokit gitHubLogin ctx tr =
             (Inr (), tr @ [GraphqlCall (Query \<lparr>referenceName = rn,
                              repositoryName = repo_repo ctx,
                              repositoryOwner = repo_owner ctx\<rparr>), LogError e])"
    by (simp add: pushHandle_fetch_failure)
next
  fix rn response e
  assume "pusher (payload ctx) = Some p \<and> name p = gitHubLogin"
    and "getReferenceName (payload ctx) = Inr rn
            \<and> octokit (Query \<lparr>referenceName = rn, repositoryName = repo_repo ctx,
                                repositoryOwner = repo_owner ctx\<rparr>) = Inr response
            \<and> informationOf response = Inl e"
  then show "pushHandle selector octokit gitHubLogin ctx tr =
             (Inr (), tr @ [GraphqlCall (Query \<lparr>referenceName = rn,
                              repositoryName = repo_repo ctx,
                              repositoryOwner = repo_owner ctx\<rparr>), LogError e])"
    by (simp add: pushHandle_malformed_response)
next
  fix rn response i e
  assume "pusher (payload ctx) = Some p \<and> name p = gitHubLogin"
    and "getReferenceName (payload ctx) = Inr rn
            \<and> octokit (Query \<lparr>referenceName = rn, repositoryName = repo_repo ctx,
                                repositoryOwner = repo_owner ctx\<rparr>) = Inr response
            \<and> informationOf response = Inr (Some i)
            \<and> getCommitMessageHeadline (payload ctx) = Inl e"
  then show "pushHandle selector octokit gitHubLogin ctx tr =
             (Inr (), tr @ [GraphqlCall (Query \<lparr>referenceName = rn,
                              repositoryName = repo_repo ctx,
                              repositoryOwner = repo_owner ctx\<rparr>),
                            LogInfo (FoundInformation i), LogError e])"
    by (simp add: pushHandle_headline_failure)
next
  fix rn response i h e
  assume "pusher (payload ctx) = Some p \<and> name p = gitHubLogin"
    and "getReferenceName (payload ctx) = Inr rn
            \<and> octokit (Query \<lparr>referenceName = rn, repositoryName = repo_repo ctx,
                                repositoryOwner = repo_owner ctx\<rparr>) = Inr response
            \<and> informationOf response = Inr (Some i)
            \<and> getCommitMessageHeadline (payload ctx) = Inr h
            \<and> mergeableState i = MERGEABLE \<and> \<not> merged i \<and> pullRequestState i = OPEN
            \<and> octokit (Mutation (selector (element0 (reviewEdges i)))
                  \<lparr>var_commitHeadline = h, var_pullRequestId = pullRequestId i\<rparr>) = Inl e"
  then show "pushHandle selector octokit gitHubLogin ctx tr =
             (Inr (), tr @ [GraphqlCall (Query \<lparr>referenceName = rn,
                              repositoryName = repo_repo ctx,
                              repositoryOwner = repo_owner ctx\<rparr>),
                            LogInfo (FoundInformation i),
                            GraphqlCall (Mutation (selector (element0 (reviewEdges i)))
                              \<lparr>var_commitHeadline = h,
                               var_pullRequestId = pullRequestId i\<rparr>),
                            LogError e])"
    by (simp add: pushHandle_mutation_failure)
qed

theorem pushHandle_catches_and_logs_witness:
  "pusher (payload (example_context (js ''refs/tags/v1'') (js ''bot'')
       (Some [\<lparr>message = js ''Bump x''\<rparr>]))) = Some \<lparr>name = js ''bot''\<rparr>
   \<and> getReferenceName (payload (example_context (js ''refs/tags/v1'') (js ''bot'')
       (Some [\<lparr>message = js ''Bump x''\<rparr>]))) = Inl TypeError
   \<and> pushHandle mutationSelector (octokit_answering (Inr Null) (Inr Null)) (js ''bot'')
        (example_context (js ''refs/tags/v1'') (js ''bot'') (Some [\<lparr>message = js ''Bump x''\<rparr>]))
        [] = (Inr (), [LogError TypeError])
   \<and> pushHandle mutationSelector
        (octokit_answering (Inl (RequestError (js ''timeout''))) (Inr Null)) (js ''bot'')
        (example_context (js ''refs/heads/x'') (js ''bot'') (Some [\<lparr>message = js ''Bump x''\<rparr>]))
        [] = (Inr (), [GraphqlCall (Query (example_query (js ''x''))),
                       LogError (RequestError (js ''timeout''))])
   \<and> pushHandle mutationSelector
        (octokit_answering (Inr Undefined) (Inr Null)) (js ''bot'')
        (example_context (js ''refs/heads/x'') (js ''bot'') (Some [\<lparr>message = js ''Bump x''\<rparr>]))
        [] = (Inr (), [GraphqlCall (Query (example_query (js ''x''))), LogError TypeError])
   \<and> pushHandle mutationSelector
        (octokit_answering (Inr (response_with_nodes (Defined [reviewed []]))) (Inr Null))
        (js ''bot'')
        (example_context (js ''refs/heads/x'') (js ''bot'') (Some [])) []
      = (Inr (),
         [GraphqlCall (Query (example_query (js ''x''))),
          LogInfo (FoundInformation \<lparr>mergeableState = MERGEABLE, merged = False,
             pullRequestId = js ''PR_1'', pullRequestState = OPEN, reviewEdges = []\<rparr>),
          LogError TypeError])
   \<and> pushHandle mutationSelector
        (octokit_answering (Inr (response_with_nodes (Defined [reviewed []])))
           (Inl (RequestError (js ''conflict''))))
        (js ''bot'')
        (example_context (js ''refs/heads/x'') (js ''bot'') (Some [\<lparr>message = js ''Bump x''\<rparr>])) []
      = (Inr (),
         [GraphqlCall (Query (example_query (js ''x''))),
          LogInfo (FoundInformation \<lparr>mergeableState = MERGEABLE, merged = False,
             pullRequestId = js ''PR_1'', pullRequestState = OPEN, reviewEdges = []\<rparr>),
          GraphqlCall (Mutation Squash
             \<lparr>var_commitHeadline = js ''Bump x'', var_pullRequestId = js ''PR_1''\<rparr>),
          LogError (RequestError (js ''conflict''))])"
proof -
  note T = pushHandle_catches_and_logs
  have parse: "pushHandle mutationSelector (octokit_answering (Inr Null) (Inr Null)) (js ''bot'')
        (example_context (js ''refs/tags/v1'') (js ''bot'') (Some [\<lparr>message = js ''Bump x''\<rparr>]))
        [] = (Inr (), [LogError TypeError])"
    using T [of mutationSelector "octokit_answering (Inr Null) (Inr Null)" "js ''bot''"
          "example_context (js ''refs/tags/v1'') (js ''bot'') (Some [\<lparr>message = js ''Bump x''\<rparr>])"
          "[]" "\<lparr>name = js ''bot''\<rparr>",
          THEN conjunct2, THEN conjunct2, THEN mp, THEN conjunct1]
    by (simp add: input_evaluation)
  have fetch: "pushHandle mutationSelector
        (octokit_answering (Inl (RequestError (js ''timeout''))) (Inr Null)) (js ''bot'')
        (example_context (js ''refs/heads/x'') (js ''bot'') (Some [\<lparr>message = js ''Bump x''\<rparr>]))
        [] = (Inr (), [GraphqlCall (Query (example_query (js ''x''))),
                       LogError (RequestError (js ''timeout''))])"
    using T [of mutationSelector "octokit_answering (Inl (RequestError (js ''timeout''))) (Inr Null)"
          "js ''bot''"
          "example_context (js ''refs/heads/x'') (js ''bot'') (Some [\<lparr>message = js ''Bump x''\<rparr>])"
          "[]" "\<lparr>name = js ''bot''\<rparr>",
          THEN conjunct2, THEN conjunct2, THEN mp, THEN conjunct2, THEN conjunct1]
    by (simp add: input_evaluation)
  have response: "pushHandle mutationSelector
        (octokit_answering (Inr Undefined) (Inr Null)) (js ''bot'')
        (example_context (js ''refs/heads/x'') (js ''bot'') (Some [\<lparr>message = js ''Bump x''\<rparr>]))
        [] = (Inr (), [GraphqlCall (Query (example_query (js ''x''))), LogError TypeError])"
    using T [of mutationSelector "octokit_answering (Inr Undefined) (Inr Null)" "js ''bot''"
          "example_context (js ''refs/heads/x'') (js ''bot'') (Some [\<lparr>message = js ''Bump x''\<rparr>])"
          "[]" "\<lparr>name = js ''bot''\<rparr>",
          THEN conjunct2, THEN conjunct2, THEN mp, THEN conjunct2, THEN conjunct2,
          THEN conjunct1]
    by (simp add: input_evaluation)
  have headline: "pushHandle mutationSelector
        (octokit_answering (Inr (response_with_nodes (Defined [reviewed []]))) (Inr Null))
        (js ''bot'')
        (example_context (js ''refs/heads/x'') (js ''bot'') (Some [])) []
      = (Inr (),
         [GraphqlCall (Query (example_query (js ''x''))),
          LogInfo (FoundInformation \<lparr>mergeableState = MERGEABLE, merged = False,
             pullRequestId = js ''PR_1'', pullRequestState = OPEN, reviewEdges = []\<rparr>),
          LogError TypeError])"
    using T [of mutationSelector
          "octokit_answering (Inr (response_with_nodes (Defined [reviewed []]))) (Inr Null)"
          "js ''bot''"
          "example_context (js ''refs/heads/x'') (js ''bot'') (Some [])"
          "[]" "\<lparr>name = js ''bot''\<rparr>",
          THEN conjunct2, THEN conjunct2, THEN mp, THEN conjunct2, THEN conjunct2,
          THEN conjunct2, THEN conjunct1]
    by (simp add: input_evaluation)
  have mutation: "pushHandle mutationSelector
        (octokit_answering (Inr (response_with_nodes (Defined [reviewed []])))
           (Inl (RequestError (js ''conflict''))))
        (js ''bot'')
        (example_context (js ''refs/heads/x'') (js ''bot'') (Some [\<lparr>message = js ''Bump x''\<rparr>])) []
      = (Inr (),
         [GraphqlCall (Query (example_query (js ''x''))),
          LogInfo (FoundInformation \<lparr>mergeableState = MERGEABLE, merged = False,
             pullRequestId = js ''PR_1'', pullRequestState = OPEN, reviewEdges = []\<rparr>),
          GraphqlCall (Mutation Squash
             \<lparr>var_commitHeadline = js ''Bump x'', var_pullRequestId = js ''PR_1''\<rparr>),
          LogError (RequestError (js ''conflict''))])"
    using T [of mutationSelector
          "octokit_answering (Inr (response_with_nodes (Defined [reviewed []])))
             (Inl (RequestError (js ''conflict'')))"
          "js ''bot''"
          "example_context (js ''refs/heads/x'') (js ''bot'') (Some [\<lparr>message = js ''Bump x''\<rparr>])"
          "[]" "\<lparr>name = js ''bot''\<rparr>",
          THEN conjunct2, THEN conjunct2, THEN mp, THEN conjunct2, THEN conjunct2,
          THEN conjunct2, THEN conjunct2]
    by (simp add: input_evaluation)
  have "pusher (payload (example_context (js ''refs/tags/v1'') (js ''bot'')
       (Some [\<lparr>message = js ''Bump x''\<rparr>]))) = Some \<lparr>name = js ''bot''\<rparr>"
    and "getReferenceName (payload (example_context (js ''refs/tags/v1'') (js ''bot'')
       (Some [\<lparr>message = js ''Bump x''\<rparr>]))) = Inl TypeError"
    by (simp_all add: input_evaluation)
  with parse fetch response headline mutation show ?thesis
    by (intro conjI)
qed

text \<open>
  A payload without \<open>pusher\<close>: \<open>pushHandle\<close> does not return normally, the TypeError
  reaches its caller and nothing is logged.
\<close>

theorem pushHandle_without_pusher_counterexample:
  "pusher (payload context_without_pusher) = None
   \<and> pushHandle mutationSelector (octokit_answering (Inr Null) (Inr Null)) (js ''bot'')
        context_without_pusher [] = (Inl TypeError, [])
   \<and> fst (pushHandle mutationSelector (octokit_answering (Inr Null) (Inr Null)) (js ''bot'')
        context_without_pusher []) \<noteq> Inr ()"
  by (simp add: evaluation)

text \<open>
  C5. When the pusher's login differs from the configured login, \<open>pushHandle\<close>
  writes the one info line "not created by" and returns: started on an empty trace it
  leaves no read query, no mutation call, exactly one info line and no other log line,
  whatever the rest of the payload, the client and the selector are.
\<close>

theorem pushHandle_other_pusher:
  assumes "pusher (payload ctx) = Some p" and "name p \<noteq> gitHubLogin"
  shows "pushHandle selector octokit gitHubLogin ctx tr =
           (Inr (), tr @ [LogInfo (NotCreatedBy gitHubLogin)])
         \<and> fetch_calls (snd (pushHandle selector octokit gitHubLogin ctx [])) = []
         \<and> mutation_calls (snd (pushHandle selector octokit gitHubLogin ctx [])) = []
         \<and> length (info_logs (snd (pushHandle selector octokit gitHubLogin ctx []))) = 1
         \<and> warning_logs (snd (pushHandle selector octokit gitHubLogin ctx [])) = []
         \<and> error_logs (snd (pushHandle selector octokit gitHubLogin ctx [])) = []"
  using assms by (simp add: pushHandle_def)

theorem pushHandle_other_pusher_witness:
  "pusher (payload (example_context (js ''refs/heads/x'') (js ''eve'') None)) =
     Some \<lparr>name = js ''eve''\<rparr>
   \<and> name \<lparr>name = js ''eve''\<rparr> \<noteq> js ''bot''
   \<and> pushHandle mutationSelector (octokit_answering (Inr Null) (Inr Null)) (js ''bot'')
        (example_context (js ''refs/heads/x'') (js ''eve'') None) [] =
       (Inr (), [LogInfo (NotCreatedBy (js ''bot''))])"
  using pushHandle_other_pusher
    [of "example_context (js ''refs/heads/x'') (js ''eve'') None" "\<lparr>name = js ''eve''\<rparr>"
        "js ''bot''" mutationSelector "octokit_answering (Inr Null) (Inr Null)" "[]"]
  by (simp add: example_context_def example_payload_def js_def)

text \<open>
  Every mutation call of a run of \<open>pushHandle\<close> carries the headline that
  \<open>getCommitMessageHeadline\<close> returns for the payload; when that throws, there is no
  mutation call.
\<close>

lemma pushHandle_try_mutation_calls:
  "mutation_calls (snd (pushHandle_try selector octokit ctx [])) = []
   \<or> (\<exists>d h pr. getCommitMessageHeadline (payload ctx) = Inr h \<and>
         mutation_calls (snd (pushHandle_try selector octokit ctx [])) =
           [(d, \<lparr>var_commitHeadline = h, var_pullRequestId = pr\<rparr>)])"
proof (cases "getReferenceName (payload ctx)")
  case (Inl e)
  then show ?thesis by (simp add: pushHandle_try_def)
next
  case (Inr rn)
  let ?q = "\<lparr>referenceName = rn, repositoryName = repo_repo ctx,
             repositoryOwner = repo_owner ctx\<rparr>"
  obtain res tr1 where g: "getPullRequestInformation octokit ?q [] = (res, tr1)"
    by (cases "getPullRequestInformation octokit ?q []")
  with getPullRequestInformation_trace [of octokit ?q "[]"]
  have tr1: "tr1 = [GraphqlCall (Query ?q)]" by simp
  show ?thesis
  proof (cases res)
    case (Inl e)
    with Inr g tr1 show ?thesis by (simp add: pushHandle_try_def)
  next
    case found: (Inr found)
    show ?thesis
    proof (cases found)
      case None
      with Inr g tr1 found show ?thesis by (simp add: pushHandle_try_def)
    next
      case (Some info)
      show ?thesis
      proof (cases "getCommitMessageHeadline (payload ctx)")
        case (Inl e)
        with Inr g tr1 found Some show ?thesis by (simp add: pushHandle_try_def)
      next
        case h: (Inr h)
        have t: "pushHandle_try selector octokit ctx [] =
                 tryMerge selector octokit (withHeadline info h)
                   (tr1 @ [LogInfo (FoundInformation info)])"
          using Inr g found Some h by (simp add: pushHandle_try_def)
        from tryMerge_mutation_calls
          [of selector octokit "withHeadline info h" "tr1 @ [LogInfo (FoundInformation info)]"]
        show ?thesis
          unfolding t using h tr1 by (auto simp: withHeadline_def)
      qed
    qed
  qed
qed

lemma pushHandle_mutation_calls:
  "mutation_calls (snd (pushHandle selector octokit gitHubLogin ctx [])) =
     (case pusher (payload ctx) of
        None \<Rightarrow> []
      | Some p \<Rightarrow> if name p \<noteq> gitHubLogin then []
                  else mutation_calls (snd (pushHandle_try selector octokit ctx [])))"
  by (simp add: pushHandle_def trace_append split: option.splits prod.splits sum.splits)

lemma pushHandle_headlines:
  "x \<in> set (mutation_calls (snd (pushHandle selector octokit gitHubLogin ctx []))) \<Longrightarrow>
     getCommitMessageHeadline (payload ctx) = Inr (var_commitHeadline (snd x))"
proof -
  assume x: "x \<in> set (mutation_calls (snd (pushHandle selector octokit gitHubLogin ctx [])))"
  then have "x \<in> set (mutation_calls (snd (pushHandle_try selector octokit ctx [])))"
    by (simp add: pushHandle_mutation_calls split: option.splits if_splits)
  with pushHandle_try_mutation_calls [of selector octokit ctx]
  show ?thesis by auto
qed

text \<open>
  C9. When the payload lists at least one commit, the headline is that of the first
  commit's message, and it is the \<open>commitHeadline\<close> of every mutation call the
  handler makes; two payloads with the same first commit give the same headline
  whatever their other commits are; with an empty or absent \<open>commits\<close> the headline
  extraction throws, and the handler makes no mutation call.
\<close>

theorem pushHandle_headline_of_first_commit:
  "(commits (payload ctx) = Some (c # cs) \<longrightarrow>
      getCommitMessageHeadline (payload ctx) =
        Inr (takeWhile (\<lambda>u. \<not> isLineTerminator u) (message c))
      \<and> (\<forall>x\<in>set (mutation_calls (snd (pushHandle selector octokit gitHubLogin ctx []))).
            var_commitHeadline (snd x) = takeWhile (\<lambda>u. \<not> isLineTerminator u) (message c)))
   \<and> (commits p = Some (c # cs) \<and> commits p' = Some (c # cs') \<longrightarrow>
        getCommitMessageHeadline p = getCommitMessageHeadline p')
   \<and> (commits q = None \<or> commits q = Some [] \<longrightarrow> getCommitMessageHeadline q = Inl TypeError)
   \<and> (commits (payload ctx') = None \<or> commits (payload ctx') = Some [] \<longrightarrow>
        mutation_calls (snd (pushHandle selector octokit gitHubLogin ctx' [])) = [])"
proof (intro conjI impI ballI)
  assume "commits (payload ctx) = Some (c # cs)"
  then show "getCommitMessageHeadline (payload ctx) =
        Inr (takeWhile (\<lambda>u. \<not> isLineTerminator u) (message c))"
    by (rule getCommitMessageHeadline_Cons)
next
  fix x
  assume "commits (payload ctx) = Some (c # cs)"
    and "x \<in> set (mutation_calls (snd (pushHandle selector octokit gitHubLogin ctx [])))"
  with pushHandle_headlines [of x selector octokit gitHubLogin ctx]
    getCommitMessageHeadline_Cons [of "payload ctx" c cs]
  show "var_commitHeadline (snd x) = takeWhile (\<lambda>u. \<not> isLineTerminator u) (message c)"
    by simp
next
  assume "commits p = Some (c # cs) \<and> commits p' = Some (c # cs')"
  then show "getCommitMessageHeadline p = getCommitMessageHeadline p'"
    by (simp add: getCommitMessageHeadline_Cons)
next
  assume "commits q = None \<or> commits q = Some []"
  then show "getCommitMessageHeadline q = Inl TypeError"
    by (auto simp: getCommitMessageHeadline_def)
next
  assume "commits (payload ctx') = None \<or> commits (payload ctx') = Some []"
  then have e: "getCommitMessageHeadline (payload ctx') = Inl TypeError"
    by (auto simp: getCommitMessageHeadline_def)
  show "mutation_calls (snd (pushHandle selector octokit gitHubLogin ctx' [])) = []"
  proof (rule ccontr)
    assume "mutation_calls (snd (pushHandle selector octokit gitHubLogin ctx' [])) \<noteq> []"
    then obtain x
      where "x \<in> set (mutation_calls (snd (pushHandle selector octokit gitHubLogin ctx' [])))"
      by (cases "mutation_calls (snd (pushHandle selector octokit gitHubLogin ctx' []))") auto
    from pushHandle_headlines [OF this] e show False by simp
  qed
qed

theorem pushHandle_headline_of_first_commit_witness:
  "commits (payload (example_context (js ''refs/heads/x'') (js ''bot'')
       (Some [\<lparr>message = js ''Bump x'' @ [0x0A] @ js ''Body''\<rparr>, \<lparr>message = js ''Other''\<rparr>]))) =
     Some (\<lparr>message = js ''Bump x'' @ [0x0A] @ js ''Body''\<rparr> # [\<lparr>message = js ''Other''\<rparr>])
   \<and> mutation_calls (snd (pushHandle mutationSelector
        (octokit_answering
           (Inr (response_with_nodes (Defined [reviewed [edge_in_state APPROVED]])))
           (Inr Null))
        (js ''bot'')
        (example_context (js ''refs/heads/x'') (js ''bot'')
           (Some [\<lparr>message = js ''Bump x'' @ [0x0A] @ js ''Body''\<rparr>, \<lparr>message = js ''Other''\<rparr>]))
        [])) =
       [(MergeCommit, \<lparr>var_commitHeadline = js ''Bump x'', var_pullRequestId = js ''PR_1''\<rparr>)]
   \<and> takeWhile (\<lambda>u. \<not> isLineTerminator u) (js ''Bump x'' @ [0x0A] @ js ''Body'') = js ''Bump x''
   \<and> commits (example_payload (js ''refs/heads/x'') (js ''bot'') (Some [])) = Some []
   \<and> getCommitMessageHeadline (example_payload (js ''refs/heads/x'') (js ''bot'') (Some [])) =
       Inl TypeError
   \<and> mutation_calls (snd (pushHandle mutationSelector
        (octokit_answering
           (Inr (response_with_nodes (Defined [reviewed [edge_in_state APPROVED]])))
           (Inr Null))
        (js ''bot'')
        (example_context (js ''refs/heads/x'') (js ''bot'') (Some [])) [])) = []"
  using pushHandle_headline_of_first_commit
    [of "example_context (js ''refs/heads/x'') (js ''bot'')
           (Some [\<lparr>message = js ''Bump x'' @ [0x0A] @ js ''Body''\<rparr>, \<lparr>message = js ''Other''\<rparr>])"
        "\<lparr>message = js ''Bump x'' @ [0x0A] @ js ''Body''\<rparr>" "[\<lparr>message = js ''Other''\<rparr>]"
        mutationSelector
        "octokit_answering
           (Inr (response_with_nodes (Defined [reviewed [edge_in_state APPROVED]])))
           (Inr Null)"
        "js ''bot''"
        "example_payload (js ''refs/heads/x'') (js ''bot'')
           (Some [\<lparr>message = js ''Bump x'' @ [0x0A] @ js ''Body''\<rparr>, \<lparr>message = js ''Other''\<rparr>])"
        "example_payload (js ''refs/heads/x'') (js ''bot'')
           (Some [\<lparr>message = js ''Bump x'' @ [0x0A] @ js ''Body''\<rparr>])"
        "[]"
        "example_payload (js ''refs/heads/x'') (js ''bot'') (Some [])"
        "example_context (js ''refs/heads/x'') (js ''bot'') (Some [])"]
  by (simp add: evaluation)

end
